theory Spec2Isabelle
  imports Main "HOL-Library.Sublist"
begin

section \<open>JavaScript strings and character classes\<close>

text \<open>
  A JavaScript string is modelled as a \<open>string\<close> (a list of \<open>char\<close>); a \<open>char\<close>
  stands for a code unit in the range 0..255 (Latin-1). Characters are compared by
  their code, as the ranges of a regular expression class do.
\<close>

definition code :: "char \<Rightarrow> nat" where
  "code c = of_char c"

definition inRange :: "char \<Rightarrow> char \<Rightarrow> char \<Rightarrow> bool" where
  "inRange lo hi c = (code lo \<le> code c \<and> code c \<le> code hi)"

text \<open>The class \<open>\d\<close>.\<close>

definition isDigit :: "char \<Rightarrow> bool" where
  "isDigit c = inRange CHR ''0'' CHR ''9'' c"

text \<open>The class \<open>[a-z]\<close>.\<close>

definition isLower :: "char \<Rightarrow> bool" where
  "isLower c = inRange CHR ''a'' CHR ''z'' c"

text \<open>The class \<open>[A-Z]\<close>.\<close>

definition isUpper :: "char \<Rightarrow> bool" where
  "isUpper c = inRange CHR ''A'' CHR ''Z'' c"

text \<open>The class \<open>[A-Za-z]\<close>.\<close>

definition isLetter :: "char \<Rightarrow> bool" where
  "isLetter c = (isUpper c \<or> isLower c)"

text \<open>
  The class \<open>\s\<close>, which is also what \<open>String.prototype.trim\<close> strips: the
  ECMAScript WhiteSpace and LineTerminator code points. Those below 256 are TAB, LF,
  VT, FF, CR, SPACE and NO-BREAK SPACE.
\<close>

definition isSpace :: "char \<Rightarrow> bool" where
  "isSpace c = (code c \<in> {9, 10, 11, 12, 13, 32, 160})"

text \<open>
  Case folding of a regular expression with the \<open>i\<close> flag (\<open>Canonicalize\<close>, without
  the \<open>u\<close> flag): a character is replaced by its upper case when that is a single
  code unit, and a character from 128 on is never folded below 128. On Latin-1 the
  letters \<open>a-z\<close> and \<open>0xE0-0xFE\<close> (without the division sign \<open>0xF7\<close>) move down by 32.
\<close>

definition canonicalize :: "char \<Rightarrow> char" where
  "canonicalize c =
     (if isLower c \<or> (224 \<le> code c \<and> code c \<le> 254 \<and> code c \<noteq> 247)
      then char_of (code c - 32) else c)"

text \<open>
  \<open>String.prototype.toLowerCase\<close> on Latin-1: \<open>A-Z\<close> and \<open>0xC0-0xDE\<close> (without the
  multiplication sign \<open>0xD7\<close>) move up by 32.
\<close>

definition lowerChar :: "char \<Rightarrow> char" where
  "lowerChar c =
     (if isUpper c \<or> (192 \<le> code c \<and> code c \<le> 222 \<and> code c \<noteq> 215)
      then char_of (code c + 32) else c)"

definition toLowerCase :: "string \<Rightarrow> string" where
  "toLowerCase s = map lowerChar s"

text \<open>\<open>String.prototype.trim\<close>: white space is removed from both ends.\<close>

definition trim :: "string \<Rightarrow> string" where
  "trim s = rev (dropWhile isSpace (rev (dropWhile isSpace s)))"

section \<open>Regular expressions with backtracking\<close>

text \<open>
  The regular expression literals of the source use single characters and character
  classes, sequence, alternation, the optional group \<open>r?\<close> and greedy repetition of a
  class (\<open>c*\<close>, \<open>c+\<close>, \<open>c{n}\<close>, \<open>c{n,}\<close>, \<open>c{n,m}\<close>). \<open>Rep c n None\<close> is \<open>c{n,}\<close>,
  \<open>Rep c n (Some m)\<close> is \<open>c{n,m}\<close>.
\<close>

datatype regex =
    Cls "char \<Rightarrow> bool"
  | Seq regex regex
  | Alt regex regex
  | Opt regex
  | Rep "char \<Rightarrow> bool" nat "nat option"

text \<open>
  Greedy repetition of a class: the rests of the input after \<open>k\<close> characters of the
  class, for every admissible \<open>k\<close>, the longest first.
\<close>

definition repeatCls :: "(char \<Rightarrow> bool) \<Rightarrow> nat \<Rightarrow> nat option \<Rightarrow> string \<Rightarrow> string list" where
  "repeatCls p n m s =
     (let run = length (takeWhile p s);
          hi = (case m of None \<Rightarrow> run | Some k \<Rightarrow> min k run)
      in map (\<lambda>k. drop k s) (rev [n..<Suc hi]))"

text \<open>
  The backtracking matcher of ECMAScript as a list of successes: \<open>matchRe r s\<close> lists
  the rests of \<open>s\<close> after each way of matching \<open>r\<close> at the start of \<open>s\<close>, in the order
  in which backtracking tries them (left alternative first, greedy quantifiers from
  the longest). The match the engine reports is the head of the list.
\<close>

fun matchRe :: "regex \<Rightarrow> string \<Rightarrow> string list" where
  "matchRe (Cls p) s = (case s of [] \<Rightarrow> [] | c # cs \<Rightarrow> if p c then [cs] else [])"
| "matchRe (Seq a b) s = concat (map (matchRe b) (matchRe a s))"
| "matchRe (Alt a b) s = matchRe a s @ matchRe b s"
| "matchRe (Opt a) s = matchRe a s @ [s]"
| "matchRe (Rep p n m) s = repeatCls p n m s"

text \<open>
  \<open>RegExp.prototype.exec\<close> without the \<open>g\<close> and \<open>y\<close> flags: the match is tried at
  index 0, 1, ... up to the length of the input, and the first index with a match
  wins. The result is the index and the matched substring (\<open>match.index\<close> and
  \<open>match[0]\<close>); \<open>None\<close> is JavaScript's \<open>null\<close>.
\<close>

fun searchFrom :: "regex \<Rightarrow> nat \<Rightarrow> string \<Rightarrow> (nat \<times> string) option" where
  "searchFrom r i s =
     (case matchRe r s of
        rest # _ \<Rightarrow> Some (i, take (length s - length rest) s)
      | [] \<Rightarrow> (case s of [] \<Rightarrow> None | _ # cs \<Rightarrow> searchFrom r (Suc i) cs))"

definition exec :: "regex \<Rightarrow> string \<Rightarrow> (nat \<times> string) option" where
  "exec r s = searchFrom r 0 s"

text \<open>\<open>String.prototype.match\<close> with a non-global regular expression, read at \<open>[0]\<close>.\<close>

definition match0 :: "regex \<Rightarrow> string \<Rightarrow> string option" where
  "match0 r s = map_option snd (exec r s)"

text \<open>\<open>RegExp.prototype.test\<close>.\<close>

definition test :: "regex \<Rightarrow> string \<Rightarrow> bool" where
  "test r s = (exec r s \<noteq> None)"

text \<open>The strings a regular expression denotes, independently of any matching order.\<close>

primrec lang :: "regex \<Rightarrow> string set" where
  "lang (Cls p) = {[c] | c. p c}"
| "lang (Seq a b) = {u @ v | u v. u \<in> lang a \<and> v \<in> lang b}"
| "lang (Alt a b) = lang a \<union> lang b"
| "lang (Opt a) = insert [] (lang a)"
| "lang (Rep p n m) =
     {u. list_all p u \<and> n \<le> length u \<and> (case m of None \<Rightarrow> True | Some k \<Rightarrow> length u \<le> k)}"

text \<open>\<open>occursAt r s i u\<close>: the string \<open>u\<close> matches \<open>r\<close> and sits in \<open>s\<close> at index \<open>i\<close>.\<close>

definition occursAt :: "regex \<Rightarrow> string \<Rightarrow> nat \<Rightarrow> string \<Rightarrow> bool" where
  "occursAt r s i u = (u \<in> lang r \<and> i \<le> length s \<and> prefix u (drop i s))"

section \<open>Helper functions of the server\<close>

text \<open>
  Both source files, \<open>src/index.js\<close> and \<open>src/unnamed/part_000\<close>, define the same four
  helpers. Where the two texts differ, the definition from \<open>src/index.js\<close> carries the
  suffix \<open>_index\<close> and the one from \<open>src/unnamed/part_000\<close> the suffix \<open>_part0\<close>.
\<close>

text \<open>A pattern character that stands for itself.\<close>

definition Chr :: "char \<Rightarrow> regex" where
  "Chr c = Cls (\<lambda>x. x = c)"

text \<open>A pattern character under the \<open>i\<close> flag.\<close>

definition ChrI :: "char \<Rightarrow> regex" where
  "ChrI c = Cls (\<lambda>x. canonicalize x = canonicalize c)"

text \<open>The class \<open>[\s\S]\<close>.\<close>

definition anyChar :: "char \<Rightarrow> bool" where
  "anyChar c = (isSpace c \<or> \<not> isSpace c)"

text \<open>The pattern \<^verbatim>\<open>/(\{[\s\S]*\}|\[[\s\S]*\])/\<close> of \<open>extractJSON\<close>.\<close>

definition jsonRe :: regex where
  "jsonRe =
     Alt (Seq (Chr CHR ''{'') (Seq (Rep anyChar 0 None) (Chr CHR ''}'')))
         (Seq (Chr CHR ''['') (Seq (Rep anyChar 0 None) (Chr CHR '']'')))"

text \<open>The classes \<^verbatim>\<open>[a-zA-Z0-9._%+-]\<close> and \<^verbatim>\<open>[a-zA-Z0-9.-]\<close>.\<close>

definition localCls :: "char \<Rightarrow> bool" where
  "localCls c = (isLower c \<or> isUpper c \<or> isDigit c \<or> c \<in> set ''._%+-'')"

definition domainCls :: "char \<Rightarrow> bool" where
  "domainCls c = (isLower c \<or> isUpper c \<or> isDigit c \<or> c \<in> set ''.-'')"

text \<open>The pattern \<^verbatim>\<open>/[a-zA-Z0-9._%+-]+@[a-zA-Z0-9.-]+\.[a-z]{2,}/\<close> of \<open>extractEmail\<close>.\<close>

definition emailRe :: regex where
  "emailRe =
     Seq (Rep localCls 1 None)
       (Seq (Chr CHR ''@'')
         (Seq (Rep domainCls 1 None)
           (Seq (Chr CHR ''.'') (Rep isLower 2 None))))"

text \<open>The class \<^verbatim>\<open>[\s-]\<close>.\<close>

definition sepCls :: "char \<Rightarrow> bool" where
  "sepCls c = (isSpace c \<or> c = CHR ''-'')"

text \<open>
  The pattern \<^verbatim>\<open>/(\+?\d{1,3}[\s-]?)?(\d{10}|\d{3}[\s-]\d{3}[\s-]\d{4})/\<close> of
  \<open>extractPhone\<close>.
\<close>

definition phoneRe :: regex where
  "phoneRe =
     Seq (Opt (Seq (Opt (Chr CHR ''+'')) (Seq (Rep isDigit 1 (Some 3)) (Opt (Cls sepCls)))))
         (Alt (Rep isDigit 10 (Some 10))
              (Seq (Rep isDigit 3 (Some 3))
                (Seq (Cls sepCls)
                  (Seq (Rep isDigit 3 (Some 3))
                    (Seq (Cls sepCls) (Rep isDigit 4 (Some 4)))))))"

text \<open>The patterns \<^verbatim>\<open>/resume/i\<close>, \<^verbatim>\<open>/[A-Za-z]/\<close> and \<^verbatim>\<open>/\r?\n/\<close> of \<open>extractName\<close>.\<close>

definition resumeRe :: regex where
  "resumeRe =
     Seq (ChrI CHR ''r'') (Seq (ChrI CHR ''e'') (Seq (ChrI CHR ''s'')
       (Seq (ChrI CHR ''u'') (Seq (ChrI CHR ''m'') (ChrI CHR ''e'')))))"

definition letterRe :: regex where
  "letterRe = Cls isLetter"

definition CR :: char where
  "CR = char_of (13::nat)"

definition LF :: char where
  "LF = char_of (10::nat)"

definition newlineRe :: regex where
  "newlineRe = Seq (Opt (Chr CR)) (Chr LF)"

text \<open>
  \<open>String.prototype.split\<close> with a regular expression that never matches the empty
  string: the input is cut at every match of the separator, found from left to right;
  an empty input gives one empty piece. (A match that consumes nothing is skipped.)
\<close>

definition consPiece :: "char \<Rightarrow> string list \<Rightarrow> string list" where
  "consPiece c ps = (case ps of [] \<Rightarrow> [[c]] | p # qs \<Rightarrow> (c # p) # qs)"

function splitRe :: "regex \<Rightarrow> string \<Rightarrow> string list" where
  "splitRe r [] = [[]]"
| "splitRe r (c # cs) =
     (case matchRe r (c # cs) of
        [] \<Rightarrow> consPiece c (splitRe r cs)
      | rest # _ \<Rightarrow>
          if length rest \<le> length cs then [] # splitRe r rest
          else consPiece c (splitRe r cs))"
  by pat_completeness auto
termination
  by (relation "measure (\<lambda>(r, s). length s)") auto

text \<open>\<open>String.prototype.split\<close> with a separator of one character.\<close>

fun splitChar :: "char \<Rightarrow> string \<Rightarrow> string list" where
  "splitChar sep [] = [[]]"
| "splitChar sep (c # cs) =
     (if c = sep then [] # splitChar sep cs else consPiece c (splitChar sep cs))"

subsection \<open>extractEmail and extractPhone\<close>

text \<open>
  \<open>src/index.js\<close>: \<^verbatim>\<open>(t.match(re) || [])[0] || null\<close>. The second \<open>||\<close> also turns an
  empty match into \<open>null\<close>.
\<close>

definition firstOrNull :: "string option \<Rightarrow> string option" where
  "firstOrNull m = (case m of None \<Rightarrow> None | Some s \<Rightarrow> if s = [] then None else Some s)"

definition extractEmail_index :: "string \<Rightarrow> string option" where
  "extractEmail_index t = firstOrNull (match0 emailRe t)"

definition extractPhone_index :: "string \<Rightarrow> string option" where
  "extractPhone_index t = firstOrNull (match0 phoneRe t)"

text \<open>\<open>src/unnamed/part_000\<close>: \<^verbatim>\<open>const m = text.match(re); return m ? m[0] : null\<close>.\<close>

definition extractEmail_part0 :: "string \<Rightarrow> string option" where
  "extractEmail_part0 text = (case exec emailRe text of None \<Rightarrow> None | Some m \<Rightarrow> Some (snd m))"

definition extractPhone_part0 :: "string \<Rightarrow> string option" where
  "extractPhone_part0 text = (case exec phoneRe text of None \<Rightarrow> None | Some m \<Rightarrow> Some (snd m))"

subsection \<open>extractName\<close>

text \<open>
  The two source files have the same text for \<open>extractName\<close>:
  \<^verbatim>\<open>
  const lines = t.split(/\r?\n/).map((l) => l.trim()).filter(Boolean);
  for (let i = 0; i < Math.min(6, lines.length); i++) {
    const s = lines[i];
    if (!/resume/i.test(s) && /[A-Za-z]/.test(s) && s.split(" ").length <= 4)
      return s;
  }
  return null;
  \<close>
  \<open>filter(Boolean)\<close> keeps the strings that are not empty.
\<close>

definition nameLines :: "string \<Rightarrow> string list" where
  "nameLines t = filter (\<lambda>l. l \<noteq> []) (map trim (splitRe newlineRe t))"

definition nameTest :: "string \<Rightarrow> bool" where
  "nameTest s =
     (\<not> test resumeRe s \<and> test letterRe s \<and> length (splitChar CHR '' '' s) \<le> 4)"

function nameLoop :: "string list \<Rightarrow> nat \<Rightarrow> string option" where
  "nameLoop lines i =
     (if i < min 6 (length lines)
      then (let s = lines ! i in if nameTest s then Some s else nameLoop lines (Suc i))
      else None)"
  by pat_completeness auto
termination
  by (relation "measure (\<lambda>(lines, i). min 6 (length lines) - i)") auto

declare nameLoop.simps [simp del]

definition extractName :: "string \<Rightarrow> string option" where
  "extractName t = nameLoop (nameLines t) 0"

section \<open>JSON values and JSON.parse\<close>

text \<open>
  The values \<open>JSON.parse\<close> produces. A string is a list of UTF-16 code units, since
  an escape \<^verbatim>\<open>\uXXXX\<close> denotes any of them. A number literal is kept exactly, as
  sign, decimal mantissa and decimal exponent (the value is mantissa times ten to the
  exponent); its rounding to a double is not modelled. An object keeps its members in
  the order of the text, duplicates included; a property read takes the last one.
\<close>

type_synonym jstring = "nat list"

datatype json =
    JNull
  | JBool bool
  | JNumber bool nat int
  | JString jstring
  | JArray "json list"
  | JObject "(jstring \<times> json) list"

text \<open>A JavaScript string as a JSON value.\<close>

definition units :: "string \<Rightarrow> jstring" where
  "units s = map code s"

definition JStr :: "string \<Rightarrow> json" where
  "JStr s = JString (units s)"

text \<open>An evaluation either completes with a value or throws.\<close>

datatype 'a completion = Threw | Normal 'a

subsection \<open>Tokens\<close>

datatype token =
    TLBrace | TRBrace | TLBrack | TRBrack | TColon | TComma
  | TString jstring | TNumber bool nat int | TTrue | TFalse | TNull

text \<open>JSON white space: TAB, LF, CR and SPACE.\<close>

definition isJsonSpace :: "char \<Rightarrow> bool" where
  "isJsonSpace c = (code c \<in> {9, 10, 13, 32})"

definition hexVal :: "char \<Rightarrow> nat option" where
  "hexVal c =
     (if isDigit c then Some (code c - 48)
      else if inRange CHR ''a'' CHR ''f'' c then Some (code c - 87)
      else if inRange CHR ''A'' CHR ''F'' c then Some (code c - 55)
      else None)"

fun hex4 :: "string \<Rightarrow> nat option" where
  "hex4 [a, b, c, d] =
     (case (hexVal a, hexVal b, hexVal c, hexVal d) of
        (Some w, Some x, Some y, Some z) \<Rightarrow> Some (((w * 16 + x) * 16 + y) * 16 + z)
      | _ \<Rightarrow> None)"
| "hex4 _ = None"

text \<open>The single-character escapes \<^verbatim>\<open>\" \\ \/ \b \f \n \r \t\<close>.\<close>

definition escapeVal :: "char \<Rightarrow> nat option" where
  "escapeVal c =
     (if c = CHR 0x22 then Some 34
      else if c = CHR 0x5C then Some 92
      else if c = CHR ''/'' then Some 47
      else if c = CHR ''b'' then Some 8
      else if c = CHR ''f'' then Some 12
      else if c = CHR ''n'' then Some 10
      else if c = CHR ''r'' then Some 13
      else if c = CHR ''t'' then Some 9
      else None)"

definition consUnit :: "nat \<Rightarrow> (jstring \<times> string) option \<Rightarrow> (jstring \<times> string) option" where
  "consUnit n r = (case r of None \<Rightarrow> None | Some (us, rest) \<Rightarrow> Some (n # us, rest))"

text \<open>
  The body of a string literal, after the opening quote: the code units up to the
  closing quote, and the rest of the input. Control characters below 0x20 are not
  allowed inside a string.
\<close>

fun lexString :: "string \<Rightarrow> (jstring \<times> string) option" where
  "lexString [] = None"
| "lexString (c # cs) =
     (if c = CHR 0x22 then Some ([], cs)
      else if c = CHR 0x5C then
        (case cs of
           [] \<Rightarrow> None
         | e # r \<Rightarrow>
             if e = CHR ''u'' then
               (case hex4 (take 4 r) of
                  None \<Rightarrow> None
                | Some n \<Rightarrow> consUnit n (lexString (drop 4 r)))
             else
               (case escapeVal e of
                  None \<Rightarrow> None
                | Some n \<Rightarrow> consUnit n (lexString r)))
      else if code c < 32 then None
      else consUnit (code c) (lexString cs))"

definition digitsVal :: "string \<Rightarrow> nat" where
  "digitsVal ds = foldl (\<lambda>n d. 10 * n + (code d - 48)) 0 ds"

text \<open>
  A number literal \<^verbatim>\<open>-?(0|[1-9][0-9]*)(\.[0-9]+)?([eE][+-]?[0-9]+)?\<close> at the start
  of the input: the token and the rest of the input.
\<close>

definition lexNumber :: "string \<Rightarrow> (token \<times> string) option" where
  "lexNumber s =
     (let neg = (take 1 s = ''-'');
          s1 = (if neg then drop 1 s else s);
          ip = (if take 1 s1 = ''0'' then ''0'' else takeWhile isDigit s1);
          s2 = drop (length ip) s1;
          hasFrac = (take 1 s2 = ''.'');
          fp = (if hasFrac then takeWhile isDigit (drop 1 s2) else []);
          s3 = (if hasFrac then drop (Suc (length fp)) s2 else s2);
          hasExp = (take 1 s3 = ''e'' \<or> take 1 s3 = ''E'');
          s4 = (if hasExp then drop 1 s3 else s3);
          eneg = (take 1 s4 = ''-'');
          s5 = (if hasExp \<and> (eneg \<or> take 1 s4 = ''+'') then drop 1 s4 else s4);
          ep = (if hasExp then takeWhile isDigit s5 else []);
          s6 = drop (length ep) s5;
          ev = (if eneg then - int (digitsVal ep) else int (digitsVal ep))
      in if ip = [] \<or> (hasFrac \<and> fp = []) \<or> (hasExp \<and> ep = []) then None
         else Some (TNumber neg (digitsVal (ip @ fp)) (ev - int (length fp)), s6))"

definition consToken :: "token \<Rightarrow> token list option \<Rightarrow> token list option" where
  "consToken t r = (case r of None \<Rightarrow> None | Some ts \<Rightarrow> Some (t # ts))"

definition punct :: "char \<Rightarrow> token option" where
  "punct c =
     (if c = CHR ''{'' then Some TLBrace
      else if c = CHR ''}'' then Some TRBrace
      else if c = CHR ''['' then Some TLBrack
      else if c = CHR '']'' then Some TRBrack
      else if c = CHR '':'' then Some TColon
      else if c = CHR '','' then Some TComma
      else None)"

definition keyword :: "string \<Rightarrow> (token \<times> string) option" where
  "keyword s =
     (if take 4 s = ''true'' then Some (TTrue, drop 4 s)
      else if take 5 s = ''false'' then Some (TFalse, drop 5 s)
      else if take 4 s = ''null'' then Some (TNull, drop 4 s)
      else None)"

text \<open>
  The first token of an input that starts with neither white space nor punctuation:
  a string, a number or a keyword. The rest is never longer than the input without
  its first character.
\<close>

definition scalarToken :: "string \<Rightarrow> (token \<times> string) option" where
  "scalarToken s =
     (let r = (case s of
                 [] \<Rightarrow> None
               | c # cs \<Rightarrow>
                   if c = CHR 0x22 then
                     (case lexString cs of None \<Rightarrow> None | Some (us, rest) \<Rightarrow> Some (TString us, rest))
                   else if c = CHR ''-'' \<or> isDigit c then lexNumber s
                   else keyword s)
      in case r of
           None \<Rightarrow> None
         | Some (t, rest) \<Rightarrow> if length rest < length s then Some (t, rest) else None)"

function lex :: "string \<Rightarrow> token list option" where
  "lex [] = Some []"
| "lex (c # cs) =
     (if isJsonSpace c then lex cs
      else case punct c of
        Some t \<Rightarrow> consToken t (lex cs)
      | None \<Rightarrow>
          (case scalarToken (c # cs) of
             None \<Rightarrow> None
           | Some (t, rest) \<Rightarrow> consToken t (lex rest)))"
  by pat_completeness auto
termination
  by (relation "measure length") (auto simp: scalarToken_def Let_def split: option.splits if_splits)

subsection \<open>From tokens to a value\<close>

text \<open>
  The grammar of JSON is read by a pushdown automaton over the tokens. A frame of the
  stack is an array or an object under construction (its elements so far, the newest
  first; for an object also the key that waits for its value).
\<close>

datatype frame =
    ArrF "json list"
  | ObjF "(jstring \<times> json) list" "jstring option"

datatype mode =
    WantValue         \<comment> \<open>a value must follow\<close>
  | WantValueOrEnd    \<comment> \<open>just after \<open>[\<close>: a value or \<open>]\<close>\<close>
  | WantKeyOrEnd      \<comment> \<open>just after \<open>{\<close>: a key or \<open>}\<close>\<close>
  | WantKey           \<comment> \<open>after a comma in an object\<close>
  | WantColon         \<comment> \<open>after a key\<close>
  | AfterValue        \<comment> \<open>inside an array or object, after a value: a comma or the end\<close>
  | Done json         \<comment> \<open>the whole value has been read\<close>

text \<open>A finished value goes into the frame on top of the stack, or is the result.\<close>

definition reduce :: "json \<Rightarrow> frame list \<Rightarrow> (mode \<times> frame list) option" where
  "reduce v st =
     (case st of
        [] \<Rightarrow> Some (Done v, [])
      | ArrF xs # st' \<Rightarrow> Some (AfterValue, ArrF (v # xs) # st')
      | ObjF ms None # st' \<Rightarrow> None
      | ObjF ms (Some k) # st' \<Rightarrow> Some (AfterValue, ObjF ((k, v) # ms) None # st'))"

definition startValue :: "frame list \<Rightarrow> token \<Rightarrow> (mode \<times> frame list) option" where
  "startValue st t =
     (case t of
        TLBrack \<Rightarrow> Some (WantValueOrEnd, ArrF [] # st)
      | TLBrace \<Rightarrow> Some (WantKeyOrEnd, ObjF [] None # st)
      | TString us \<Rightarrow> reduce (JString us) st
      | TNumber neg m e \<Rightarrow> reduce (JNumber neg m e) st
      | TTrue \<Rightarrow> reduce (JBool True) st
      | TFalse \<Rightarrow> reduce (JBool False) st
      | TNull \<Rightarrow> reduce JNull st
      | _ \<Rightarrow> None)"

definition endArray :: "frame list \<Rightarrow> (mode \<times> frame list) option" where
  "endArray st = (case st of ArrF xs # st' \<Rightarrow> reduce (JArray (rev xs)) st' | _ \<Rightarrow> None)"

definition endObject :: "frame list \<Rightarrow> (mode \<times> frame list) option" where
  "endObject st = (case st of ObjF ms None # st' \<Rightarrow> reduce (JObject (rev ms)) st' | _ \<Rightarrow> None)"

definition takeKey :: "frame list \<Rightarrow> token \<Rightarrow> (mode \<times> frame list) option" where
  "takeKey st t =
     (case (t, st) of
        (TString k, ObjF ms None # st') \<Rightarrow> Some (WantColon, ObjF ms (Some k) # st')
      | _ \<Rightarrow> None)"

definition step :: "mode \<times> frame list \<Rightarrow> token \<Rightarrow> (mode \<times> frame list) option" where
  "step c t =
     (case c of (m, st) \<Rightarrow>
        (case m of
           WantValue \<Rightarrow> startValue st t
         | WantValueOrEnd \<Rightarrow> if t = TRBrack then endArray st else startValue st t
         | WantKeyOrEnd \<Rightarrow> if t = TRBrace then endObject st else takeKey st t
         | WantKey \<Rightarrow> takeKey st t
         | WantColon \<Rightarrow> if t = TColon then Some (WantValue, st) else None
         | AfterValue \<Rightarrow>
             (case (t, st) of
                (TComma, ArrF xs # st') \<Rightarrow> Some (WantValue, st)
              | (TComma, ObjF ms None # st') \<Rightarrow> Some (WantKey, st)
              | (TRBrack, _) \<Rightarrow> endArray st
              | (TRBrace, _) \<Rightarrow> endObject st
              | _ \<Rightarrow> None)
         | Done v \<Rightarrow> None))"

fun run :: "mode \<times> frame list \<Rightarrow> token list \<Rightarrow> json option" where
  "run c [] = (case c of (Done v, []) \<Rightarrow> Some v | _ \<Rightarrow> None)"
| "run c (t # ts) = (case step c t of None \<Rightarrow> None | Some c' \<Rightarrow> run c' ts)"

text \<open>\<open>JSON.parse(text)\<close>: the value of the text, or a \<open>SyntaxError\<close>.\<close>

definition JSON_parse :: "string \<Rightarrow> json completion" where
  "JSON_parse text =
     (case lex text of
        None \<Rightarrow> Threw
      | Some ts \<Rightarrow> (case run (WantValue, []) ts of None \<Rightarrow> Threw | Some v \<Rightarrow> Normal v))"

subsection \<open>Truthiness and property reads\<close>

text \<open>
  A number literal denotes a double that is zero when its mantissa is zero or its
  value is at most \<open>2\<^sup>-\<^sup>1\<^sup>0\<^sup>7\<^sup>5\<close>, half of the least positive double.
\<close>

definition numberIsZero :: "nat \<Rightarrow> int \<Rightarrow> bool" where
  "numberIsZero m e = (m = 0 \<or> (e < 0 \<and> int m * 2 ^ 1075 \<le> 10 ^ nat (- e)))"

text \<open>
  \<open>ToBoolean\<close> on a JSON value: \<open>null\<close>, \<open>false\<close>, zero and the empty string are
  falsy.
\<close>

fun truthy :: "json \<Rightarrow> bool" where
  "truthy JNull = False"
| "truthy (JBool b) = b"
| "truthy (JNumber neg m e) = (\<not> numberIsZero m e)"
| "truthy (JString us) = (us \<noteq> [])"
| "truthy (JArray xs) = True"
| "truthy (JObject ms) = True"

text \<open>\<open>undefined\<close> is falsy as well; a missing property reads as \<open>None\<close>.\<close>

definition truthyOpt :: "json option \<Rightarrow> bool" where
  "truthyOpt v = (case v of None \<Rightarrow> False | Some x \<Rightarrow> truthy x)"

text \<open>
  Reading one of the properties \<open>role\<close>, \<open>stack\<close>, \<open>question\<close>, \<open>answer\<close>,
  \<open>candidate\<close>, \<open>name\<close> or \<open>answers\<close> of a value that is not \<open>null\<close>: an object
  gives its member of that name, every other value gives \<open>undefined\<close>.
\<close>

definition getProp :: "json \<Rightarrow> string \<Rightarrow> json option" where
  "getProp v k = (case v of JObject ms \<Rightarrow> map_of (rev ms) (units k) | _ \<Rightarrow> None)"

subsection \<open>extractJSON\<close>

text \<open>
  \<open>src/index.js\<close>:
  \<^verbatim>\<open>
  try { return JSON.parse(text); }
  catch {
    const match = text.match(/(\{[\s\S]*\}|\[[\s\S]*\])/);
    return match ? JSON.parse(match[0]) : null;
  }
  \<close>
  The second \<open>JSON.parse\<close> is outside any \<open>try\<close>.
\<close>

definition extractJSON_index :: "string \<Rightarrow> json completion" where
  "extractJSON_index text =
     (case JSON_parse text of
        Normal v \<Rightarrow> Normal v
      | Threw \<Rightarrow>
          (case exec jsonRe text of
             Some m \<Rightarrow> JSON_parse (snd m)
           | None \<Rightarrow> Normal JNull))"

text \<open>
  \<open>src/unnamed/part_000\<close>:
  \<^verbatim>\<open>
  try { return JSON.parse(text); }
  catch (err) {
    const match = text.match(/(\{[\s\S]*\}|\[[\s\S]*\])/);
    if (match) {
      try { return JSON.parse(match[0]); } catch { return null; }
    }
    return null;
  }
  \<close>
\<close>

definition extractJSON_part0 :: "string \<Rightarrow> json completion" where
  "extractJSON_part0 text =
     (case JSON_parse text of
        Normal v \<Rightarrow> Normal v
      | Threw \<Rightarrow>
          (case exec jsonRe text of
             Some m \<Rightarrow>
               (case JSON_parse (snd m) of
                  Normal v \<Rightarrow> Normal v
                | Threw \<Rightarrow> Normal JNull)
           | None \<Rightarrow> Normal JNull))"

section \<open>The HTTP handlers\<close>

text \<open>
  An HTTP response: the status and the JSON body. Every error body is
  \<^verbatim>\<open>{ error: message }\<close>.
\<close>

datatype response = Response nat json

definition errorBody :: "string \<Rightarrow> json" where
  "errorBody msg = JObject [(units ''error'', JStr msg)]"

text \<open>A string or \<open>null\<close> as a JSON value.\<close>

definition orNull :: "string option \<Rightarrow> json" where
  "orNull v = (case v of None \<Rightarrow> JNull | Some s \<Rightarrow> JStr s)"

text \<open>\<^verbatim>\<open>x || ""\<close> for a string \<open>x\<close> that may be \<open>undefined\<close>.\<close>

definition orEmpty :: "string option \<Rightarrow> string" where
  "orEmpty v = (case v of None \<Rightarrow> [] | Some s \<Rightarrow> s)"

subsection \<open>The world outside the handlers\<close>

text \<open>
  The file system maps a path to the content of the file there. \<open>fs.readFileSync\<close>
  and \<open>fs.unlinkSync\<close> throw when there is no file at the path.
\<close>

type_synonym filesystem = "string \<rightharpoonup> string"

definition readFileSync :: "filesystem \<Rightarrow> string \<Rightarrow> string completion" where
  "readFileSync fs p = (case fs p of None \<Rightarrow> Threw | Some d \<Rightarrow> Normal d)"

definition unlinkSync :: "filesystem \<Rightarrow> string \<Rightarrow> filesystem completion" where
  "unlinkSync fs p = (case fs p of None \<Rightarrow> Threw | Some d \<Rightarrow> Normal (fs(p := None)))"

text \<open>
  The prompt of an AI endpoint is a template literal. Its fixed text is not modelled:
  a prompt is given by the file it comes from and the values the template
  interpolates (for the questions the role and the elements of the stack, for the
  grading the question and the answer, for the summary \<open>candidate.name\<close> and
  \<open>candidate.answers\<close>, \<open>None\<close> when \<open>undefined\<close>).
\<close>

datatype sourceFile = IndexJs | Part0

datatype prompt =
    QuestionsPrompt sourceFile json "json list"
  | GradePrompt sourceFile json json
  | SummaryPrompt sourceFile "json option" "json option"

text \<open>
  The collaborators the handlers call, which are not code of this repository:
  \<^item> \<open>extname\<close>: \<open>path.extname\<close>;
  \<^item> \<open>pdfParse\<close>: the PDF library, from the bytes of the file to the field \<open>text\<close> of
    its result (\<open>None\<close> when \<open>undefined\<close>), or an exception;
  \<^item> \<open>extractRawText\<close>: the DOCX library, which reads the file at the path itself, to
    the field \<open>value\<close> of its result, or an exception;
  \<^item> \<open>render\<close>: the evaluation of the template literal of a prompt (string
    conversion and \<open>JSON.stringify\<close> of the interpolated values), which may throw;
  \<^item> \<open>generateContent\<close>: the round trip to the model, \<open>result.response.text()\<close>
    included, or an exception.
\<close>

record env =
  extname :: "string \<Rightarrow> string"
  pdfParse :: "string \<Rightarrow> string option completion"
  extractRawText :: "filesystem \<Rightarrow> string \<Rightarrow> string option completion"
  render :: "prompt \<Rightarrow> string completion"
  generateContent :: "string \<Rightarrow> string completion"

text \<open>The calls a handler makes to the world, in order.\<close>

datatype call =
    ReadFileSync string
  | PdfParse string
  | ExtractRawText string
  | UnlinkSync string

text \<open>What a handler leaves behind: the response, the file system and the calls.\<close>

record outcome =
  response :: response
  files :: filesystem
  calls :: "call list"

text \<open>\<open>req.file\<close> as \<open>multer\<close> sets it: the name the client gave and the staged path.\<close>

record upload =
  originalname :: string
  path :: string

subsection \<open>POST /api/parse-resume\<close>

definition profile :: "string \<Rightarrow> json" where
  "profile text =
     JObject [(units ''name'', orNull (extractName text)),
              (units ''email'', orNull (extractEmail_part0 text)),
              (units ''phone'', orNull (extractPhone_part0 text)),
              (units ''text'', JStr text)]"

definition profile_index :: "string \<Rightarrow> json" where
  "profile_index text =
     JObject [(units ''name'', orNull (extractName text)),
              (units ''email'', orNull (extractEmail_index text)),
              (units ''phone'', orNull (extractPhone_index text)),
              (units ''text'', JStr text)]"

text \<open>The \<open>catch\<close> block of the handler.\<close>

definition parseFailed :: "filesystem \<Rightarrow> call list \<Rightarrow> outcome" where
  "parseFailed fs cs =
     \<lparr>response = Response 500 (errorBody ''Failed to parse resume''), files = fs, calls = cs\<rparr>"

text \<open>
  \<open>src/unnamed/part_000\<close>, after the text has been extracted:
  \<^verbatim>\<open>
  fs.unlinkSync(req.file.path);
  const name = extractName(text); ...
  res.json({ name, email, phone, text });
  \<close>
\<close>

definition finish_part0 :: "filesystem \<Rightarrow> call list \<Rightarrow> upload \<Rightarrow> string \<Rightarrow> outcome" where
  "finish_part0 fs cs f text =
     (case unlinkSync fs (path f) of
        Threw \<Rightarrow> parseFailed fs (cs @ [UnlinkSync (path f)])
      | Normal fs' \<Rightarrow>
          \<lparr>response = Response 200 (profile text), files = fs',
           calls = cs @ [UnlinkSync (path f)]\<rparr>)"

text \<open>
  \<open>src/unnamed/part_000\<close>:
  \<^verbatim>\<open>
  try {
    if (!req.file) return res.status(400).json({ error: "No file uploaded" });
    const ext = path.extname(req.file.originalname).toLowerCase();
    let text = "";
    if (ext === ".pdf") {
      const data = fs.readFileSync(req.file.path);
      const pdf = await pdfParse(data);
      text = pdf.text || "";
    } else if (ext === ".docx") {
      const result = await mammoth.extractRawText({ path: req.file.path });
      text = result.value || "";
    } else {
      fs.unlinkSync(req.file.path);
      return res.status(400).json({ error: "Only PDF or DOCX allowed" });
    }
    fs.unlinkSync(req.file.path);
    ...
  } catch (err) {
    res.status(500).json({ error: "Failed to parse resume" });
  }
  \<close>
\<close>

definition parseResume_part0 :: "env \<Rightarrow> filesystem \<Rightarrow> upload option \<Rightarrow> outcome" where
  "parseResume_part0 e fs file =
     (case file of
        None \<Rightarrow>
          \<lparr>response = Response 400 (errorBody ''No file uploaded''), files = fs, calls = []\<rparr>
      | Some f \<Rightarrow>
          (let ext = toLowerCase (extname e (originalname f)) in
           if ext = ''.pdf'' then
             (case readFileSync fs (path f) of
                Threw \<Rightarrow> parseFailed fs [ReadFileSync (path f)]
              | Normal d \<Rightarrow>
                  (case pdfParse e d of
                     Threw \<Rightarrow> parseFailed fs [ReadFileSync (path f), PdfParse d]
                   | Normal t \<Rightarrow>
                       finish_part0 fs [ReadFileSync (path f), PdfParse d] f (orEmpty t)))
           else if ext = ''.docx'' then
             (case extractRawText e fs (path f) of
                Threw \<Rightarrow> parseFailed fs [ExtractRawText (path f)]
              | Normal t \<Rightarrow> finish_part0 fs [ExtractRawText (path f)] f (orEmpty t))
           else
             (case unlinkSync fs (path f) of
                Threw \<Rightarrow> parseFailed fs [UnlinkSync (path f)]
              | Normal fs' \<Rightarrow>
                  \<lparr>response = Response 400 (errorBody ''Only PDF or DOCX allowed''),
                   files = fs', calls = [UnlinkSync (path f)]\<rparr>)))"

text \<open>
  \<open>src/index.js\<close> has the same handler without the two calls of \<open>fs.unlinkSync\<close>:
  \<^verbatim>\<open>
    if (ext === ".pdf") {
      const data = fs.readFileSync(req.file.path);
      text = (await pdfParse(data)).text || "";
    } else if (ext === ".docx") {
      text = (await mammoth.extractRawText({ path: req.file.path })).value || "";
    } else {
      return res.status(400).json({ error: "Only PDF or DOCX allowed" });
    }
    const result = { name: extractName(text), ... };
    res.json(result);
  \<close>
\<close>

definition parseResume_index :: "env \<Rightarrow> filesystem \<Rightarrow> upload option \<Rightarrow> outcome" where
  "parseResume_index e fs file =
     (case file of
        None \<Rightarrow>
          \<lparr>response = Response 400 (errorBody ''No file uploaded''), files = fs, calls = []\<rparr>
      | Some f \<Rightarrow>
          (let ext = toLowerCase (extname e (originalname f)) in
           if ext = ''.pdf'' then
             (case readFileSync fs (path f) of
                Threw \<Rightarrow> parseFailed fs [ReadFileSync (path f)]
              | Normal d \<Rightarrow>
                  (case pdfParse e d of
                     Threw \<Rightarrow> parseFailed fs [ReadFileSync (path f), PdfParse d]
                   | Normal t \<Rightarrow>
                       \<lparr>response = Response 200 (profile_index (orEmpty t)), files = fs,
                        calls = [ReadFileSync (path f), PdfParse d]\<rparr>))
           else if ext = ''.docx'' then
             (case extractRawText e fs (path f) of
                Threw \<Rightarrow> parseFailed fs [ExtractRawText (path f)]
              | Normal t \<Rightarrow>
                  \<lparr>response = Response 200 (profile_index (orEmpty t)), files = fs,
                   calls = [ExtractRawText (path f)]\<rparr>)
           else
             \<lparr>response = Response 400 (errorBody ''Only PDF or DOCX allowed''),
              files = fs, calls = []\<rparr>))"

subsection \<open>The three AI endpoints\<close>

text \<open>
  \<open>req.body\<close> is what \<open>express.json()\<close> left there, \<open>None\<close> when \<open>undefined\<close>.
  Reading a property of \<open>undefined\<close> or \<open>null\<close> throws a \<open>TypeError\<close>.
\<close>

definition requireObject :: "json option \<Rightarrow> json completion" where
  "requireObject b =
     (case b of None \<Rightarrow> Threw | Some JNull \<Rightarrow> Threw | Some v \<Rightarrow> Normal v)"

text \<open>\<^verbatim>\<open>x || d\<close> and the destructuring default \<^verbatim>\<open>{ x = d }\<close>.\<close>

definition orElse :: "json option \<Rightarrow> json \<Rightarrow> json" where
  "orElse v d = (case v of None \<Rightarrow> d | Some x \<Rightarrow> if truthy x then x else d)"

definition orDefault :: "json option \<Rightarrow> json \<Rightarrow> json" where
  "orDefault v d = (case v of None \<Rightarrow> d | Some x \<Rightarrow> x)"

definition defaultRole :: json where
  "defaultRole = JStr ''Full Stack Developer''"

definition defaultStack :: json where
  "defaultStack = JArray [JStr ''React'', JStr ''Node.js'']"

text \<open>
  An AI handler answers with a response and has sent some prompts to the model; it
  does not touch the file system.
\<close>

record reply =
  answer :: response
  sent :: "string list"

definition failWith :: "string \<Rightarrow> string list \<Rightarrow> reply" where
  "failWith msg ps = \<lparr>answer = Response 500 (errorBody msg), sent = ps\<rparr>"

definition badRequest :: "string \<Rightarrow> reply" where
  "badRequest msg = \<lparr>answer = Response 400 (errorBody msg), sent = []\<rparr>"

text \<open>
  Sending a prompt: the template literal is evaluated, then the model is called. The
  result is the text of the reply, or \<open>Threw\<close> when one of the two steps throws, with
  the prompts that reached the model.
\<close>

definition ask :: "env \<Rightarrow> prompt \<Rightarrow> (string completion \<times> string list)" where
  "ask e p =
     (case render e p of
        Threw \<Rightarrow> (Threw, [])
      | Normal s \<Rightarrow> (generateContent e s, [s]))"

text \<open>
  \<open>src/unnamed/part_000\<close>, generate-questions:
  \<^verbatim>\<open>
  try {
    const role = req.body.role || "Full Stack Developer";
    const stack = req.body.stack || ["React", "Node.js"];
    const prompt = `... ${role} ... ${stack.join(", ")} ...`;
    const result = await model.generateContent(prompt);
    const questions = extractJSON(result.response.text());
    if (!questions) throw new Error("Invalid AI JSON output");
    res.json({ questions });
  } catch (err) {
    res.status(500).json({ error: "Gemini question generation failed" });
  }
  \<close>
  \<open>stack.join\<close> is a function only when \<open>stack\<close> is an array.
\<close>

definition questionsError :: string where
  "questionsError = ''Gemini question generation failed''"

definition generateQuestions_part0 :: "env \<Rightarrow> json option \<Rightarrow> reply" where
  "generateQuestions_part0 e body =
     (case requireObject body of
        Threw \<Rightarrow> failWith questionsError []
      | Normal b \<Rightarrow>
          (let role = orElse (getProp b ''role'') defaultRole;
               stack = orElse (getProp b ''stack'') defaultStack
           in case stack of
                JArray xs \<Rightarrow>
                  (case ask e (QuestionsPrompt Part0 role xs) of
                     (Threw, ps) \<Rightarrow> failWith questionsError ps
                   | (Normal text, ps) \<Rightarrow>
                       (case extractJSON_part0 text of
                          Threw \<Rightarrow> failWith questionsError ps
                        | Normal questions \<Rightarrow>
                            if \<not> truthy questions then failWith questionsError ps
                            else \<lparr>answer = Response 200 (JObject [(units ''questions'', questions)]),
                                  sent = ps\<rparr>))
              | _ \<Rightarrow> failWith questionsError []))"

text \<open>
  \<open>src/index.js\<close>, generate-questions:
  \<^verbatim>\<open>
  try {
    const { role = "Full Stack Developer", stack = ["React", "Node.js"] } = req.body;
    const prompt = `... ${role} ... ${stack.join(", ")} ...`;
    const result = await model.generateContent(prompt);
    const questions = extractJSON(result.response.text());
    res.json({ questions });
  } catch (err) {
    res.status(500).json({ error: "Gemini question generation failed" });
  }
  \<close>
\<close>

definition generateQuestions_index :: "env \<Rightarrow> json option \<Rightarrow> reply" where
  "generateQuestions_index e body =
     (case requireObject body of
        Threw \<Rightarrow> failWith questionsError []
      | Normal b \<Rightarrow>
          (let role = orDefault (getProp b ''role'') defaultRole;
               stack = orDefault (getProp b ''stack'') defaultStack
           in case stack of
                JArray xs \<Rightarrow>
                  (case ask e (QuestionsPrompt IndexJs role xs) of
                     (Threw, ps) \<Rightarrow> failWith questionsError ps
                   | (Normal text, ps) \<Rightarrow>
                       (case extractJSON_index text of
                          Threw \<Rightarrow> failWith questionsError ps
                        | Normal questions \<Rightarrow>
                            \<lparr>answer = Response 200 (JObject [(units ''questions'', questions)]),
                             sent = ps\<rparr>))
              | _ \<Rightarrow> failWith questionsError []))"

text \<open>
  \<open>src/unnamed/part_000\<close>, grade-answer:
  \<^verbatim>\<open>
  try {
    const { question, answer } = req.body;
    if (!question || !answer)
      return res.status(400).json({ error: "Missing data" });
    const prompt = `... ${question} ... ${answer} ...`;
    const result = await model.generateContent(prompt);
    const grading = extractJSON(result.response.text());
    if (!grading) throw new Error("Invalid grading output");
    res.json(grading);
  } catch (err) {
    res.status(500).json({ error: "Gemini grading failed" });
  }
  \<close>
\<close>

definition gradingError :: string where
  "gradingError = ''Gemini grading failed''"

definition gradeAnswer_part0 :: "env \<Rightarrow> json option \<Rightarrow> reply" where
  "gradeAnswer_part0 e body =
     (case requireObject body of
        Threw \<Rightarrow> failWith gradingError []
      | Normal b \<Rightarrow>
          (case (getProp b ''question'', getProp b ''answer'') of
             (Some q, Some a) \<Rightarrow>
               if \<not> truthy q \<or> \<not> truthy a then badRequest ''Missing data''
               else
                 (case ask e (GradePrompt Part0 q a) of
                    (Threw, ps) \<Rightarrow> failWith gradingError ps
                  | (Normal text, ps) \<Rightarrow>
                      (case extractJSON_part0 text of
                         Threw \<Rightarrow> failWith gradingError ps
                       | Normal grading \<Rightarrow>
                           if \<not> truthy grading then failWith gradingError ps
                           else \<lparr>answer = Response 200 grading, sent = ps\<rparr>))
           | _ \<Rightarrow> badRequest ''Missing data''))"

text \<open>
  \<open>src/index.js\<close>, grade-answer: the same without the check of the decoded value;
  \<^verbatim>\<open>res.json(extractJSON(result.response.text()))\<close>.
\<close>

definition gradeAnswer_index :: "env \<Rightarrow> json option \<Rightarrow> reply" where
  "gradeAnswer_index e body =
     (case requireObject body of
        Threw \<Rightarrow> failWith gradingError []
      | Normal b \<Rightarrow>
          (case (getProp b ''question'', getProp b ''answer'') of
             (Some q, Some a) \<Rightarrow>
               if \<not> truthy q \<or> \<not> truthy a then badRequest ''Missing data''
               else
                 (case ask e (GradePrompt IndexJs q a) of
                    (Threw, ps) \<Rightarrow> failWith gradingError ps
                  | (Normal text, ps) \<Rightarrow>
                      (case extractJSON_index text of
                         Threw \<Rightarrow> failWith gradingError ps
                       | Normal grading \<Rightarrow> \<lparr>answer = Response 200 grading, sent = ps\<rparr>))
           | _ \<Rightarrow> badRequest ''Missing data''))"

text \<open>
  \<open>src/unnamed/part_000\<close>, final-summary:
  \<^verbatim>\<open>
  try {
    const { candidate } = req.body;
    if (!candidate || !candidate.answers)
      return res.status(400).json({ error: "Missing candidate data" });
    const prompt = `... ${candidate.name} ... ${JSON.stringify(candidate.answers, null, 2)} ...`;
    const result = await model.generateContent(prompt);
    const summary = extractJSON(result.response.text());
    if (!summary) throw new Error("Invalid summary output");
    res.json(summary);
  } catch (err) {
    res.status(500).json({ error: "Gemini summary failed" });
  }
  \<close>
\<close>

definition summaryError :: string where
  "summaryError = ''Gemini summary failed''"

definition finalSummary_part0 :: "env \<Rightarrow> json option \<Rightarrow> reply" where
  "finalSummary_part0 e body =
     (case requireObject body of
        Threw \<Rightarrow> failWith summaryError []
      | Normal b \<Rightarrow>
          (case getProp b ''candidate'' of
             None \<Rightarrow> badRequest ''Missing candidate data''
           | Some candidate \<Rightarrow>
               if \<not> truthy candidate \<or> \<not> truthyOpt (getProp candidate ''answers'')
               then badRequest ''Missing candidate data''
               else
                 (case ask e (SummaryPrompt Part0 (getProp candidate ''name'')
                                (getProp candidate ''answers'')) of
                    (Threw, ps) \<Rightarrow> failWith summaryError ps
                  | (Normal text, ps) \<Rightarrow>
                      (case extractJSON_part0 text of
                         Threw \<Rightarrow> failWith summaryError ps
                       | Normal summary \<Rightarrow>
                           if \<not> truthy summary then failWith summaryError ps
                           else \<lparr>answer = Response 200 summary, sent = ps\<rparr>))))"

text \<open>
  \<open>src/index.js\<close>, final-summary: only \<^verbatim>\<open>if (!candidate)\<close> guards the prompt, and the
  decoded value is sent as it is.
\<close>

definition finalSummary_index :: "env \<Rightarrow> json option \<Rightarrow> reply" where
  "finalSummary_index e body =
     (case requireObject body of
        Threw \<Rightarrow> failWith summaryError []
      | Normal b \<Rightarrow>
          (case getProp b ''candidate'' of
             None \<Rightarrow> badRequest ''Missing candidate data''
           | Some candidate \<Rightarrow>
               if \<not> truthy candidate then badRequest ''Missing candidate data''
               else
                 (case ask e (SummaryPrompt IndexJs (getProp candidate ''name'')
                                (getProp candidate ''answers'')) of
                    (Threw, ps) \<Rightarrow> failWith summaryError ps
                  | (Normal text, ps) \<Rightarrow>
                      (case extractJSON_index text of
                         Threw \<Rightarrow> failWith summaryError ps
                       | Normal summary \<Rightarrow> \<lparr>answer = Response 200 summary, sent = ps\<rparr>))))"

section \<open>An environment to run the handlers in\<close>

text \<open>
  \<open>path.extname\<close> of Node.js on a POSIX system scans the path from its end:
  \<^verbatim>\<open>
  let startDot = -1, startPart = 0, end = -1, matchedSlash = true, preDotState = 0;
  for (let i = path.length - 1; i >= 0; --i) {
    const code = path.charCodeAt(i);
    if (code === 47) { if (!matchedSlash) { startPart = i + 1; break; } continue; }
    if (end === -1) { matchedSlash = false; end = i + 1; }
    if (code === 46) {
      if (startDot === -1) startDot = i; else if (preDotState !== 1) preDotState = 1;
    } else if (startDot !== -1) preDotState = -1;
  }
  if (startDot === -1 || end === -1 || preDotState === 0 ||
      (preDotState === 1 && startDot === end - 1 && startDot === startPart + 1)) return '';
  return path.slice(startDot, end);
  \<close>
\<close>

record extState =
  startDot :: int
  startPart :: int
  endIdx :: int
  matchedSlash :: bool
  preDotState :: int

text \<open>The loop, with \<open>n = i + 1\<close>.\<close>

fun extLoop :: "string \<Rightarrow> nat \<Rightarrow> extState \<Rightarrow> extState" where
  "extLoop p 0 st = st"
| "extLoop p (Suc i) st =
     (if p ! i = CHR ''/'' then
        (if \<not> matchedSlash st then st\<lparr>startPart := int i + 1\<rparr> else extLoop p i st)
      else
        (let st1 = (if endIdx st = - 1 then st\<lparr>matchedSlash := False, endIdx := int i + 1\<rparr>
                    else st);
             st2 = (if p ! i = CHR ''.'' then
                      (if startDot st1 = - 1 then st1\<lparr>startDot := int i\<rparr>
                       else if preDotState st1 \<noteq> 1 then st1\<lparr>preDotState := 1\<rparr>
                       else st1)
                    else if startDot st1 \<noteq> - 1 then st1\<lparr>preDotState := - 1\<rparr>
                    else st1)
         in extLoop p i st2))"

definition posixExtname :: "string \<Rightarrow> string" where
  "posixExtname p =
     (let st = extLoop p (length p)
                 \<lparr>startDot = - 1, startPart = 0, endIdx = - 1, matchedSlash = True,
                  preDotState = 0\<rparr>
      in if startDot st = - 1 \<or> endIdx st = - 1 \<or> preDotState st = 0 \<or>
            (preDotState st = 1 \<and> startDot st = endIdx st - 1 \<and> startDot st = startPart st + 1)
         then []
         else take (nat (endIdx st) - nat (startDot st)) (drop (nat (startDot st)) p))"

text \<open>
  A sample environment: documents decode to the text \<open>docText\<close> or, when it is
  \<open>None\<close>, the decoder throws; the model answers every prompt with \<open>llmText\<close>; a
  prompt renders to a fixed string.
\<close>

definition sampleEnv :: "string option \<Rightarrow> string \<Rightarrow> env" where
  "sampleEnv docText llmText =
     \<lparr>extname = posixExtname,
      pdfParse = (\<lambda>d. case docText of None \<Rightarrow> Threw | Some t \<Rightarrow> Normal (Some t)),
      extractRawText = (\<lambda>fs p. case docText of None \<Rightarrow> Threw | Some t \<Rightarrow> Normal (Some t)),
      render = (\<lambda>p. Normal ''prompt''),
      generateContent = (\<lambda>s. Normal llmText)\<rparr>"

definition sampleUpload :: "string \<Rightarrow> upload" where
  "sampleUpload name = \<lparr>originalname = name, path = ''/uploads/f1''\<rparr>"

definition sampleFiles :: filesystem where
  "sampleFiles = [''/uploads/f1'' \<mapsto> ''bytes'']"

section \<open>Notions the properties are stated with\<close>

text \<open>Two characters that are equal up to the case of an ASCII letter.\<close>

definition sameLetter :: "char \<Rightarrow> char \<Rightarrow> bool" where
  "sameLetter x y =
     (x = y \<or> (isUpper x \<and> code x + 32 = code y) \<or> (isUpper y \<and> code y + 32 = code x))"

text \<open>Two strings that are equal when compared case-insensitively.\<close>

definition equalsIgnoreCase :: "string \<Rightarrow> string \<Rightarrow> bool" where
  "equalsIgnoreCase a b = list_all2 sameLetter a b"

text \<open>The extension of the uploaded file is one of the two the handler accepts.\<close>

definition supported :: "env \<Rightarrow> upload \<Rightarrow> bool" where
  "supported e f =
     (equalsIgnoreCase (extname e (originalname f)) ''.pdf'' \<or>
      equalsIgnoreCase (extname e (originalname f)) ''.docx'')"

text \<open>The calls that read or decode the uploaded document.\<close>

fun isDecoding :: "call \<Rightarrow> bool" where
  "isDecoding (ReadFileSync p) = True"
| "isDecoding (PdfParse d) = True"
| "isDecoding (ExtractRawText p) = True"
| "isDecoding (UnlinkSync p) = False"

text \<open>A string contains a word, compared case-insensitively.\<close>

definition containsIgnoreCase :: "string \<Rightarrow> string \<Rightarrow> bool" where
  "containsIgnoreCase s w = (\<exists>u. sublist u s \<and> equalsIgnoreCase u w)"

text \<open>
  The test of \<open>extractName\<close> on a line, in words: the line does not contain \<open>resume\<close>
  in any case, has a letter, and has at most three space characters (so that cutting
  it at every single space gives at most four pieces).
\<close>

definition nameLike :: "string \<Rightarrow> bool" where
  "nameLike s =
     (\<not> containsIgnoreCase s ''resume'' \<and> (\<exists>c \<in> set s. isLetter c) \<and>
      count_list s CHR '' '' \<le> 3)"

text \<open>
  The tokens of a line that white space separates: the line is cut at every white
  space character and the empty pieces are dropped.
\<close>

fun splitWhere :: "(char \<Rightarrow> bool) \<Rightarrow> string \<Rightarrow> string list" where
  "splitWhere p [] = [[]]"
| "splitWhere p (c # cs) =
     (if p c then [] # splitWhere p cs else consPiece c (splitWhere p cs))"

definition wsTokens :: "string \<Rightarrow> string list" where
  "wsTokens s = filter (\<lambda>w. w \<noteq> []) (splitWhere isSpace s)"

text \<open>
  An email-shaped string: a local part, \<open>@\<close>, a domain, a dot and a top-level domain
  of at least two lower-case letters.
\<close>

definition emailShaped :: "string \<Rightarrow> bool" where
  "emailShaped u =
     (\<exists>l d tld. u = l @ ''@'' @ d @ ''.'' @ tld \<and>
        l \<noteq> [] \<and> list_all localCls l \<and> d \<noteq> [] \<and> list_all domainCls d \<and>
        2 \<le> length tld \<and> list_all isLower tld)"

text \<open>
  The pattern of \<open>extractEmail\<close> with the letters of the top-level domain in either
  case, \<^verbatim>\<open>[a-zA-Z]{2,}\<close>.
\<close>

definition emailReAnyCase :: regex where
  "emailReAnyCase =
     Seq (Rep localCls 1 None)
       (Seq (Chr CHR ''@'')
         (Seq (Rep domainCls 1 None)
           (Seq (Chr CHR ''.'') (Rep isLetter 2 None))))"

text \<open>\<open>m\<close> is a substring of \<open>t\<close> with the property \<open>P\<close>, and none starts further left.\<close>

definition leftmost :: "(string \<Rightarrow> bool) \<Rightarrow> string \<Rightarrow> string \<Rightarrow> bool" where
  "leftmost P t m =
     (\<exists>pre post. t = pre @ m @ post \<and> P m \<and>
        (\<forall>pre' u post'. t = pre' @ u @ post' \<and> P u \<longrightarrow> length pre \<le> length pre'))"

text \<open>The part of a string up to the last occurrence of a character.\<close>

definition uptoLast :: "char \<Rightarrow> string \<Rightarrow> string" where
  "uptoLast cl t = rev (dropWhile (\<lambda>x. x \<noteq> cl) (rev t))"

text \<open>
  The substring that starts at the first \<open>opening\<close> character and ends at the last
  \<open>closing\<close> character after it, with the index where it starts; \<open>None\<close> when there
  is no such pair.
\<close>

definition firstToLast :: "char \<Rightarrow> char \<Rightarrow> string \<Rightarrow> (nat \<times> string) option" where
  "firstToLast opening closing s =
     (let u = dropWhile (\<lambda>x. x \<noteq> opening) s
      in if u \<noteq> [] \<and> closing \<in> set (tl u)
         then Some (length (takeWhile (\<lambda>x. x \<noteq> opening) s),
                    uptoLast closing u)
         else None)"

text \<open>
  The bracket substring of the decoder: from the first \<^verbatim>\<open>{\<close> to the last \<^verbatim>\<open>}\<close>, or from
  the first \<^verbatim>\<open>[\<close> to the last \<^verbatim>\<open>]\<close>, whichever starts first.
\<close>

definition bracketSubstring :: "string \<Rightarrow> (nat \<times> string) option" where
  "bracketSubstring s =
     (case (firstToLast CHR ''{'' CHR ''}'' s, firstToLast CHR ''['' CHR '']'' s) of
        (None, b) \<Rightarrow> b
      | (Some a, None) \<Rightarrow> Some a
      | (Some a, Some b) \<Rightarrow> if fst a < fst b then Some a else Some b)"

text \<open>An index moved to the right by \<open>i\<close>.\<close>

definition shift :: "nat \<Rightarrow> (nat \<times> string) option \<Rightarrow> (nat \<times> string) option" where
  "shift i r = map_option (\<lambda>(j, m). (i + j, m)) r"

text \<open>The part \<^verbatim>\<open>[\s\S]*c\<close> of the pattern of \<open>extractJSON\<close>, for a closing character \<open>c\<close>.\<close>

definition greedyTo :: "char \<Rightarrow> regex" where
  "greedyTo cl = Seq (Rep anyChar 0 None) (Chr cl)"

section \<open>The matcher finds what the pattern denotes\<close>

lemma takeWhile_prefix_len:
  "(k \<le> length s \<and> list_all p (take k s)) = (k \<le> length (takeWhile p s))"
proof (induction s arbitrary: k)
  case Nil
  show ?case by simp
next
  case (Cons c cs)
  show ?case
  proof (cases k)
    case 0
    then show ?thesis by simp
  next
    case (Suc j)
    with Cons [of j] show ?thesis by auto
  qed
qed

lemma set_repeatCls:
  "set (repeatCls p n m s) = {v. \<exists>u. u \<in> lang (Rep p n m) \<and> s = u @ v}"
proof (intro set_eqI iffI)
  fix v
  assume "v \<in> set (repeatCls p n m s)"
  then obtain k where k: "v = drop k s" "n \<le> k"
      "k \<le> (case m of None \<Rightarrow> length (takeWhile p s) | Some j \<Rightarrow> min j (length (takeWhile p s)))"
    by (auto simp: repeatCls_def Let_def)
  from k(3) have kr: "k \<le> length (takeWhile p s)"
    by (cases m) auto
  then have ks: "k \<le> length s" "list_all p (take k s)"
    using takeWhile_prefix_len [of k s p] by auto
  from k(3) have km: "case m of None \<Rightarrow> True | Some j \<Rightarrow> k \<le> j"
    by (cases m) auto
  have "take k s \<in> lang (Rep p n m)"
    using ks k(2) km by (cases m) (auto simp: min_def)
  moreover have "s = take k s @ v"
    using k(1) by simp
  ultimately show "v \<in> {v. \<exists>u. u \<in> lang (Rep p n m) \<and> s = u @ v}"
    by blast
next
  fix v
  assume "v \<in> {v. \<exists>u. u \<in> lang (Rep p n m) \<and> s = u @ v}"
  then obtain u where u: "list_all p u" "n \<le> length u"
      "case m of None \<Rightarrow> True | Some j \<Rightarrow> length u \<le> j" "s = u @ v"
    by auto
  have "length u \<le> length s \<and> list_all p (take (length u) s)"
    using u(1,4) by simp
  then have "length u \<le> length (takeWhile p s)"
    using takeWhile_prefix_len [of "length u" s p] by simp
  then have "length u \<in> set (rev [n..<Suc (case m of None \<Rightarrow> length (takeWhile p s)
                 | Some j \<Rightarrow> min j (length (takeWhile p s)))])"
    using u(2,3) by (cases m) auto
  moreover have "v = drop (length u) s"
    using u(4) by simp
  ultimately show "v \<in> set (repeatCls p n m s)"
    unfolding repeatCls_def Let_def by (simp only: set_map) blast
qed

lemma set_matchRe: "set (matchRe r s) = {v. \<exists>u. u \<in> lang r \<and> s = u @ v}"
proof (induction r arbitrary: s)
  case (Cls p)
  show ?case by (cases s) auto
next
  case (Seq a b)
  show ?case
    by (simp add: Seq) (fastforce simp: append_eq_append_conv2)
next
  case (Alt a b)
  show ?case by (auto simp: Alt)
next
  case (Opt a)
  show ?case by (auto simp: Opt)
next
  case (Rep p n m)
  show ?case by (simp only: matchRe.simps set_repeatCls)
qed

lemma matchRe_empty_iff: "matchRe r t = [] \<longleftrightarrow> (\<forall>u \<in> lang r. \<not> prefix u t)"
proof -
  have "matchRe r t = [] \<longleftrightarrow> set (matchRe r t) = {}"
    by simp
  also have "\<dots> \<longleftrightarrow> (\<forall>u \<in> lang r. \<not> prefix u t)"
    unfolding set_matchRe by (auto simp: prefix_def)
  finally show ?thesis .
qed

lemma matchRe_head:
  assumes "matchRe r t = rest # others"
  shows "take (length t - length rest) t \<in> lang r \<and> t = take (length t - length rest) t @ rest"
proof -
  have "rest \<in> set (matchRe r t)"
    using assms by simp
  then obtain u where "u \<in> lang r" "t = u @ rest"
    unfolding set_matchRe by blast
  then show ?thesis by simp
qed

lemma searchFrom_None_iff:
  "searchFrom r i s = None \<longleftrightarrow> (\<forall>k \<le> length s. matchRe r (drop k s) = [])"
proof (induction s arbitrary: i)
  case Nil
  show ?case by (simp split: list.splits)
next
  case (Cons c cs)
  have "(\<forall>k \<le> length (c # cs). matchRe r (drop k (c # cs)) = []) \<longleftrightarrow>
        matchRe r (c # cs) = [] \<and> (\<forall>k \<le> length cs. matchRe r (drop k cs) = [])"
    (is "?L \<longleftrightarrow> ?R")
  proof
    assume l: ?L
    have "matchRe r (drop 0 (c # cs)) = []"
      using l by blast
    moreover have "matchRe r (drop k cs) = []" if "k \<le> length cs" for k
      using l [rule_format, of "Suc k"] that by simp
    ultimately show ?R by simp
  next
    assume r: ?R
    show ?L
    proof (intro allI impI)
      fix k
      assume "k \<le> length (c # cs)"
      then show "matchRe r (drop k (c # cs)) = []"
        using r by (cases k) auto
    qed
  qed
  then show ?case
    using Cons [of "Suc i"] by (simp split: list.splits)
qed

lemma searchFrom_Some:
  assumes "searchFrom r i s = Some (j, m)"
  shows "\<exists>k rest others. j = i + k \<and> k \<le> length s \<and> matchRe r (drop k s) = rest # others \<and>
           m = take (length (drop k s) - length rest) (drop k s) \<and>
           (\<forall>k' < k. matchRe r (drop k' s) = [])"
  using assms
proof (induction s arbitrary: i)
  case Nil
  then show ?case by (auto split: list.splits)
next
  case (Cons c cs)
  show ?case
  proof (cases "matchRe r (c # cs)")
    case Nil
    with Cons.prems have "searchFrom r (Suc i) cs = Some (j, m)"
      by simp
    from Cons.IH [OF this] obtain k rest others where k:
      "j = Suc i + k" "k \<le> length cs" "matchRe r (drop k cs) = rest # others"
      "m = take (length (drop k cs) - length rest) (drop k cs)"
      "\<forall>k' < k. matchRe r (drop k' cs) = []"
      by blast
    have "\<forall>k' < Suc k. matchRe r (drop k' (c # cs)) = []"
    proof (intro allI impI)
      fix k'
      assume "k' < Suc k"
      then show "matchRe r (drop k' (c # cs)) = []"
        using Nil k(5) by (cases k') auto
    qed
    with k(1-4) show ?thesis
      by (intro exI [of _ "Suc k"] exI [of _ rest] exI [of _ others]) simp
  next
    case (Cons rest others)
    with Cons.prems have "j = i" "m = take (length (c # cs) - length rest) (c # cs)"
      by auto
    with Cons show ?thesis
      by (intro exI [of _ 0] exI [of _ rest] exI [of _ others]) simp
  qed
qed

lemma exec_None_iff: "exec r s = None \<longleftrightarrow> (\<forall>i u. \<not> occursAt r s i u)"
  unfolding exec_def searchFrom_None_iff matchRe_empty_iff occursAt_def by blast

lemma exec_Some:
  assumes "exec r s = Some (i, m)"
  shows "occursAt r s i m \<and> (\<forall>j < i. \<forall>u. \<not> occursAt r s j u)"
proof -
  from searchFrom_Some [OF assms [unfolded exec_def]] obtain rest others where k:
    "i \<le> length s" "matchRe r (drop i s) = rest # others"
    "m = take (length (drop i s) - length rest) (drop i s)"
    "\<forall>k' < i. matchRe r (drop k' s) = []"
    by auto
  from matchRe_head [OF k(2)] k(3) have "m \<in> lang r" "drop i s = m @ rest"
    by auto
  then have "occursAt r s i m"
    using k(1) by (simp add: occursAt_def prefix_def)
  moreover have "\<not> occursAt r s j u" if "j < i" for j u
    using k(4) that by (auto simp: matchRe_empty_iff occursAt_def)
  ultimately show ?thesis by blast
qed

lemma occursAt_sublist: "occursAt r s i u \<Longrightarrow> sublist u s"
  unfolding occursAt_def prefix_def sublist_def
  by (metis append_take_drop_id append.assoc)

section \<open>Characters and case\<close>

lemma code_less_256: "code c < 256"
  by (simp add: code_def)

lemma code_inject: "code c = code d \<longleftrightarrow> c = d"
  by (simp add: code_def)

lemma code_char_of: "n < 256 \<Longrightarrow> code (char_of n) = n"
  by (simp add: code_def)

lemma code_lowerChar:
  "code (lowerChar c) =
     (if isUpper c \<or> (192 \<le> code c \<and> code c \<le> 222 \<and> code c \<noteq> 215)
      then code c + 32 else code c)"
proof (cases "isUpper c \<or> (192 \<le> code c \<and> code c \<le> 222 \<and> code c \<noteq> 215)")
  case True
  then have "code c + 32 < 256"
    by (auto simp: isUpper_def inRange_def code_def)
  then show ?thesis
    using True by (simp add: lowerChar_def code_char_of)
next
  case False
  then show ?thesis by (auto simp: lowerChar_def)
qed

lemma lowerChar_eq_iff:
  assumes "code y < 128" and "\<not> isUpper y"
  shows "lowerChar x = y \<longleftrightarrow> sameLetter x y"
proof -
  have "lowerChar x = y \<longleftrightarrow> code (lowerChar x) = code y"
    by (simp add: code_inject)
  also have "\<dots> \<longleftrightarrow> sameLetter x y"
    using assms unfolding code_lowerChar sameLetter_def
    by (auto simp: code_inject isUpper_def inRange_def)
  finally show ?thesis .
qed

lemma toLowerCase_eq_iff:
  assumes "\<forall>y \<in> set b. code y < 128 \<and> \<not> isUpper y"
  shows "toLowerCase a = b \<longleftrightarrow> equalsIgnoreCase a b"
  using assms
proof (induction a arbitrary: b)
  case Nil
  show ?case by (auto simp: toLowerCase_def equalsIgnoreCase_def)
next
  case (Cons x xs)
  show ?case
  proof (cases b)
    case Nil
    then show ?thesis by (simp add: toLowerCase_def equalsIgnoreCase_def)
  next
    case (Cons y ys)
    with Cons.prems have y: "code y < 128" "\<not> isUpper y" and ys: "\<forall>z \<in> set ys. code z < 128 \<and> \<not> isUpper z"
      by auto
    from Cons.IH [OF ys] lowerChar_eq_iff [OF y] Cons show ?thesis
      by (simp add: toLowerCase_def equalsIgnoreCase_def)
  qed
qed

lemma lower_pdf: "toLowerCase a = ''.pdf'' \<longleftrightarrow> equalsIgnoreCase a ''.pdf''"
  by (rule toLowerCase_eq_iff) (simp add: isUpper_def inRange_def code_def)

lemma lower_docx: "toLowerCase a = ''.docx'' \<longleftrightarrow> equalsIgnoreCase a ''.docx''"
  by (rule toLowerCase_eq_iff) (simp add: isUpper_def inRange_def code_def)

section \<open>The field heuristics\<close>

lemma occursAt_iff_sublist: "(\<exists>i. occursAt r s i u) \<longleftrightarrow> u \<in> lang r \<and> sublist u s"
proof
  assume "\<exists>i. occursAt r s i u"
  then show "u \<in> lang r \<and> sublist u s"
    using occursAt_sublist by (auto simp: occursAt_def)
next
  assume a: "u \<in> lang r \<and> sublist u s"
  then obtain ps ss where "s = ps @ u @ ss"
    by (auto simp: sublist_def)
  then have "occursAt r s (length ps) u"
    using a by (simp add: occursAt_def)
  then show "\<exists>i. occursAt r s i u" ..
qed

lemma test_iff: "test r s \<longleftrightarrow> (\<exists>u. u \<in> lang r \<and> sublist u s)"
proof -
  have "test r s \<longleftrightarrow> (\<exists>u i. occursAt r s i u)"
    unfolding test_def exec_None_iff by blast
  then show ?thesis
    by (simp add: occursAt_iff_sublist)
qed

lemma trim_sublist: "sublist (trim s) s"
proof -
  let ?u = "dropWhile isSpace s"
  have "rev ?u = takeWhile isSpace (rev ?u) @ dropWhile isSpace (rev ?u)"
    by simp
  then have "?u = trim s @ rev (takeWhile isSpace (rev ?u))"
    unfolding trim_def by (metis rev_append rev_rev_ident)
  moreover have "s = takeWhile isSpace s @ ?u"
    by simp
  ultimately have "s = takeWhile isSpace s @ trim s @ rev (takeWhile isSpace (rev ?u))"
    by simp
  then show ?thesis
    unfolding sublist_def by blast
qed

lemma consPiece_props:
  assumes "ps \<noteq> []"
  shows "consPiece c ps \<noteq> []" "hd (consPiece c ps) = c # hd ps" "tl (consPiece c ps) = tl ps"
    "length (consPiece c ps) = length ps"
  using assms by (cases ps; simp add: consPiece_def)+

lemma splitRe_pieces:
  "splitRe r s \<noteq> [] \<and> prefix (hd (splitRe r s)) s \<and> (\<forall>p \<in> set (tl (splitRe r s)). sublist p s)"
proof (induction r s rule: splitRe.induct)
  case (1 r)
  show ?case by simp
next
  case (2 r c cs)
  show ?case
  proof (cases "matchRe r (c # cs)")
    case Nil
    with 2(1) have ih: "splitRe r cs \<noteq> []" "prefix (hd (splitRe r cs)) cs"
      "\<forall>p \<in> set (tl (splitRe r cs)). sublist p cs"
      by auto
    have "sublist p (c # cs)" if "p \<in> set (tl (splitRe r cs))" for p
      using ih(3) that by (meson sublist_Cons_right)
    with Nil ih show ?thesis
      by (simp add: consPiece_props)
  next
    case (Cons rest others)
    show ?thesis
    proof (cases "length rest \<le> length cs")
      case True
      with 2(2) Cons have ih: "splitRe r rest \<noteq> []" "prefix (hd (splitRe r rest)) rest"
        "\<forall>p \<in> set (tl (splitRe r rest)). sublist p rest"
        by auto
      from matchRe_head [OF Cons] have suf: "suffix rest (c # cs)"
        by (metis suffixI)
      have "\<forall>p \<in> set (splitRe r rest). sublist p rest"
        using ih by (metis list.exhaust_sel prefix_imp_sublist set_ConsD)
      then have "\<forall>p \<in> set (splitRe r rest). sublist p (c # cs)"
        using suf by (meson sublist_order.order_trans suffix_imp_sublist)
      with Cons True show ?thesis by simp
    next
      case False
      with 2(3) Cons have ih: "splitRe r cs \<noteq> []" "prefix (hd (splitRe r cs)) cs"
        "\<forall>p \<in> set (tl (splitRe r cs)). sublist p cs"
        by auto
      have "sublist p (c # cs)" if "p \<in> set (tl (splitRe r cs))" for p
        using ih(3) that by (meson sublist_Cons_right)
      with Cons False ih show ?thesis
        by (simp add: consPiece_props)
    qed
  qed
qed

lemma splitRe_sublist: "p \<in> set (splitRe r s) \<Longrightarrow> sublist p s"
  using splitRe_pieces [of r s]
  by (metis list.exhaust_sel prefix_imp_sublist set_ConsD)

lemma nameLoop_find: "nameLoop lines i = find nameTest (drop i (take 6 lines))"
proof (induction lines i rule: nameLoop.induct)
  case (1 lines i)
  show ?case
  proof (cases "i < min 6 (length lines)")
    case True
    then have d: "drop i (take 6 lines) = lines ! i # drop (Suc i) (take 6 lines)"
      by (metis Cons_nth_drop_Suc length_take min.commute nth_take min_less_iff_conj)
    show ?thesis
      using True 1 [OF True refl] by (subst nameLoop.simps) (simp add: d Let_def)
  next
    case False
    then have "drop i (take 6 lines) = []"
      by (simp add: min_def split: if_splits)
    with False show ?thesis
      by (subst nameLoop.simps) auto
  qed
qed

lemma extractName_find: "extractName t = find nameTest (take 6 (nameLines t))"
  by (simp add: extractName_def nameLoop_find)

lemma extractName_line:
  assumes "extractName t = Some m"
  shows "m \<in> set (map trim (splitRe newlineRe t))" and "sublist m t"
proof -
  from assms have "m \<in> set (take 6 (nameLines t))"
    unfolding extractName_find find_Some_iff by (metis nth_mem)
  then have "m \<in> set (nameLines t)"
    by (rule in_set_takeD)
  then show m: "m \<in> set (map trim (splitRe newlineRe t))"
    by (simp add: nameLines_def)
  then obtain l where "l \<in> set (splitRe newlineRe t)" "m = trim l"
    by auto
  then show "sublist m t"
    using trim_sublist [of l] splitRe_sublist [of l newlineRe t]
    by (meson sublist_order.order_trans)
qed

lemma match_sublist:
  "extractEmail_part0 t = Some m \<Longrightarrow> sublist m t"
  "extractEmail_index t = Some m \<Longrightarrow> sublist m t"
  "extractPhone_part0 t = Some m \<Longrightarrow> sublist m t"
  "extractPhone_index t = Some m \<Longrightarrow> sublist m t"
proof -
  have ex: "sublist m t" if "exec r t = Some (i, m)" for r i
    using exec_Some [OF that] occursAt_sublist by blast
  show "extractEmail_part0 t = Some m \<Longrightarrow> sublist m t"
    using ex by (auto simp: extractEmail_part0_def split: option.splits)
  show "extractEmail_index t = Some m \<Longrightarrow> sublist m t"
    using ex by (auto simp: extractEmail_index_def firstOrNull_def match0_def
        split: option.splits if_splits)
  show "extractPhone_part0 t = Some m \<Longrightarrow> sublist m t"
    using ex by (auto simp: extractPhone_part0_def split: option.splits)
  show "extractPhone_index t = Some m \<Longrightarrow> sublist m t"
    using ex by (auto simp: extractPhone_index_def firstOrNull_def match0_def
        split: option.splits if_splits)
qed

lemma sameLetter_code:
  "sameLetter x y \<longleftrightarrow>
     code x = code y \<or> (65 \<le> code x \<and> code x \<le> 90 \<and> code x + 32 = code y) \<or>
     (65 \<le> code y \<and> code y \<le> 90 \<and> code y + 32 = code x)"
proof -
  have "code CHR ''A'' = 65" "code CHR ''Z'' = 90"
    by (simp_all add: code_def)
  then show ?thesis
    unfolding sameLetter_def isUpper_def inRange_def code_inject [symmetric, of x y] by simp
qed

lemma canonicalize_eq_iff:
  assumes "isLower c"
  shows "canonicalize x = canonicalize c \<longleftrightarrow> sameLetter x c"
proof -
  have az: "code CHR ''a'' = 97" "code CHR ''z'' = 122"
    by (simp_all add: code_def)
  have c: "97 \<le> code c" "code c \<le> 122"
    using assms by (simp_all add: isLower_def inRange_def az)
  have cc: "code (canonicalize c) = code c - 32"
    using assms c by (simp add: canonicalize_def code_char_of)
  have cx: "code (canonicalize x) =
      (if (97 \<le> code x \<and> code x \<le> 122) \<or> (224 \<le> code x \<and> code x \<le> 254 \<and> code x \<noteq> 247)
       then code x - 32 else code x)"
    using code_less_256 [of x] by (simp add: canonicalize_def code_char_of isLower_def inRange_def az)
  have "canonicalize x = canonicalize c \<longleftrightarrow> code (canonicalize x) = code (canonicalize c)"
    by (simp only: code_inject)
  also have "\<dots> \<longleftrightarrow> sameLetter x c"
    unfolding cc cx sameLetter_code using c by (simp split: if_splits) arith
  finally show ?thesis .
qed

lemma lang_Seq_Cls: "u \<in> lang (Seq (Cls p) b) \<longleftrightarrow> (\<exists>x v. u = x # v \<and> p x \<and> v \<in> lang b)"
proof
  assume "u \<in> lang (Seq (Cls p) b)"
  then show "\<exists>x v. u = x # v \<and> p x \<and> v \<in> lang b"
    by auto
next
  assume "\<exists>x v. u = x # v \<and> p x \<and> v \<in> lang b"
  then obtain x v where "u = [x] @ v" "p x" "v \<in> lang b"
    by auto
  then have "\<exists>a c. u = a @ c \<and> a \<in> lang (Cls p) \<and> c \<in> lang b"
    by (intro exI [of _ "[x]"] exI [of _ v]) simp
  then show "u \<in> lang (Seq (Cls p) b)"
    by auto
qed

lemma lang_Cls: "u \<in> lang (Cls p) \<longleftrightarrow> (\<exists>x. u = [x] \<and> p x)"
  by auto

lemma lang_resumeRe: "u \<in> lang resumeRe \<longleftrightarrow> equalsIgnoreCase u ''resume''"
proof -
  have low: "isLower CHR ''r''" "isLower CHR ''e''" "isLower CHR ''s''" "isLower CHR ''u''"
    "isLower CHR ''m''"
    by (simp_all add: isLower_def inRange_def code_def)
  show ?thesis
    unfolding resumeRe_def equalsIgnoreCase_def ChrI_def lang_Seq_Cls lang_Cls
    by (simp add: canonicalize_eq_iff low list_all2_Cons2)
qed

lemma test_resumeRe: "test resumeRe s \<longleftrightarrow> containsIgnoreCase s ''resume''"
  unfolding test_iff containsIgnoreCase_def lang_resumeRe by blast

lemma test_letterRe: "test letterRe s \<longleftrightarrow> (\<exists>c \<in> set s. isLetter c)"
proof -
  have "sublist [c] s \<longleftrightarrow> c \<in> set s" for c
    by (auto simp: sublist_def in_set_conv_decomp)
  then show ?thesis
    unfolding test_iff letterRe_def by auto
qed

lemma splitChar_nonempty: "splitChar sep s \<noteq> []"
  by (induction s) (auto simp: consPiece_props)

lemma length_splitChar: "length (splitChar sep s) = Suc (count_list s sep)"
  by (induction s) (auto simp: consPiece_props splitChar_nonempty)

lemma nameTest_iff: "nameTest s \<longleftrightarrow> nameLike s"
  by (auto simp: nameTest_def nameLike_def test_resumeRe test_letterRe length_splitChar)

lemma lang_emailRe: "u \<in> lang emailRe \<longleftrightarrow> emailShaped u"
proof
  assume "u \<in> lang emailRe"
  then obtain l d tld where "u = l @ [CHR ''@''] @ d @ [CHR ''.''] @ tld"
    "list_all localCls l" "1 \<le> length l" "list_all domainCls d" "1 \<le> length d"
    "list_all isLower tld" "2 \<le> length tld"
    unfolding emailRe_def Chr_def by auto
  then show "emailShaped u"
    unfolding emailShaped_def
    by (intro exI [of _ l] exI [of _ d] exI [of _ tld]) auto
next
  assume "emailShaped u"
  then obtain l d tld where u: "u = l @ ''@'' @ d @ ''.'' @ tld"
    and l: "l \<noteq> []" "list_all localCls l" and d: "d \<noteq> []" "list_all domainCls d"
    and t: "2 \<le> length tld" "list_all isLower tld"
    unfolding emailShaped_def by blast
  have 1: "tld \<in> lang (Rep isLower 2 None)"
    using t by simp
  have 2: "''.'' @ tld \<in> lang (Seq (Chr CHR ''.'') (Rep isLower 2 None))"
    using 1 unfolding Chr_def lang_Seq_Cls by simp
  have 3: "d \<in> lang (Rep domainCls 1 None)"
    using d by (cases d) simp_all
  have 4: "d @ ''.'' @ tld \<in> lang (Seq (Rep domainCls 1 None) (Seq (Chr CHR ''.'') (Rep isLower 2 None)))"
    using 2 3 unfolding lang.simps(2) by blast
  have 5: "''@'' @ d @ ''.'' @ tld \<in> lang (Seq (Chr CHR ''@'') (Seq (Rep domainCls 1 None)
             (Seq (Chr CHR ''.'') (Rep isLower 2 None))))"
    using 4 unfolding Chr_def lang_Seq_Cls [of _ "\<lambda>x. x = CHR ''@''"] by simp
  have 6: "l \<in> lang (Rep localCls 1 None)"
    using l by (cases l) simp_all
  show "u \<in> lang emailRe"
    unfolding emailRe_def u lang.simps(2) [of "Rep localCls 1 None"] using 5 6 by blast
qed

lemma emailShaped_nonempty: "emailShaped u \<Longrightarrow> u \<noteq> []"
  by (auto simp: emailShaped_def)

lemma exec_leftmost:
  assumes "exec r t = Some (i, m)"
  shows "leftmost (\<lambda>u. u \<in> lang r) t m"
proof -
  from exec_Some [OF assms] have occ: "occursAt r t i m"
    and first: "\<And>j u. j < i \<Longrightarrow> \<not> occursAt r t j u"
    by blast+
  from occ obtain post where post: "drop i t = m @ post" and i: "i \<le> length t" and m: "m \<in> lang r"
    by (auto simp: occursAt_def prefix_def)
  have t: "t = take i t @ m @ post"
    using post by (metis append_take_drop_id)
  have "length (take i t) \<le> length pre'" if "t = pre' @ u @ post'" "u \<in> lang r" for pre' u post'
  proof -
    have "occursAt r t (length pre') u"
      using that by (simp add: occursAt_def)
    then have "\<not> length pre' < i"
      using first by blast
    then show ?thesis
      using i by simp
  qed
  with t m show ?thesis
    unfolding leftmost_def by blast
qed

section \<open>The bracket substring\<close>

lemma matchRe_anyStar: "matchRe (Rep anyChar 0 None) t = map (\<lambda>k. drop k t) (rev [0..<Suc (length t)])"
proof -
  have "takeWhile anyChar t = t"
    by (simp add: anyChar_def)
  then have tw: "length (takeWhile anyChar t) = length t"
    by (rule arg_cong)
  show ?thesis
    by (simp add: repeatCls_def Let_def tw)
qed

lemma matchRe_Chr: "matchRe (Chr c) s = (case s of [] \<Rightarrow> [] | x # xs \<Rightarrow> if x = c then [xs] else [])"
  by (simp add: Chr_def)

lemma matchRe_greedyTo_Nil: "matchRe (greedyTo cl) [] = []"
  unfolding greedyTo_def matchRe.simps(2) matchRe_anyStar by (simp add: matchRe_Chr)

lemma matchRe_greedyTo_Cons:
  "matchRe (greedyTo cl) (c # t) = matchRe (greedyTo cl) t @ (if c = cl then [t] else [])"
proof -
  have "[0..<Suc (Suc (length t))] = 0 # map Suc [0..<Suc (length t)]"
    by (metis map_Suc_upt upt_conv_Cons zero_less_Suc)
  then have "map (\<lambda>k. drop k (c # t)) (rev [0..<Suc (length (c # t))]) =
        map (\<lambda>k. drop k t) (rev [0..<Suc (length t)]) @ [c # t]"
    by (simp add: rev_map comp_def del: upt_Suc)
  then show ?thesis
    unfolding greedyTo_def matchRe.simps(2) matchRe_anyStar
    by (simp add: matchRe_Chr del: upt_Suc)
qed

lemma matchRe_greedyTo_empty: "matchRe (greedyTo cl) t = [] \<longleftrightarrow> cl \<notin> set t"
  by (induction t) (auto simp: matchRe_greedyTo_Nil matchRe_greedyTo_Cons)

lemma uptoLast_Cons:
  "uptoLast cl (c # t) = (if cl \<in> set t then c # uptoLast cl t else if c = cl then [c] else [])"
proof (cases "cl \<in> set t")
  case True
  then have "dropWhile (\<lambda>x. x \<noteq> cl) (rev t @ [c]) = dropWhile (\<lambda>x. x \<noteq> cl) (rev t) @ [c]"
    by (intro dropWhile_append1 [of cl]) auto
  with True show ?thesis
    by (simp add: uptoLast_def)
next
  case False
  then have "dropWhile (\<lambda>x. x \<noteq> cl) (rev t @ [c]) = dropWhile (\<lambda>x. x \<noteq> cl) [c]"
    by (intro dropWhile_append2) auto
  with False show ?thesis
    by (simp add: uptoLast_def)
qed

lemma matchRe_greedyTo_head:
  "cl \<in> set t \<Longrightarrow> \<exists>rest others. matchRe (greedyTo cl) t = rest # others \<and> t = uptoLast cl t @ rest"
proof (induction t)
  case Nil
  then show ?case by simp
next
  case (Cons c t)
  show ?case
  proof (cases "cl \<in> set t")
    case True
    from Cons.IH [OF True] obtain rest others where
      "matchRe (greedyTo cl) t = rest # others" "t = uptoLast cl t @ rest"
      by blast
    with True show ?thesis
      by (simp add: matchRe_greedyTo_Cons uptoLast_Cons)
  next
    case False
    with Cons.prems have "c = cl" by simp
    moreover from False have "matchRe (greedyTo cl) t = []"
      by (simp add: matchRe_greedyTo_empty)
    ultimately show ?thesis
      using False by (simp add: matchRe_greedyTo_Cons uptoLast_Cons)
  qed
qed

lemma matchRe_jsonRe:
  "matchRe jsonRe s =
     (case s of [] \<Rightarrow> [] | c # t \<Rightarrow>
        (if c = CHR ''{'' then matchRe (greedyTo CHR ''}'') t else []) @
        (if c = CHR ''['' then matchRe (greedyTo CHR '']'') t else []))"
  by (cases s) (simp_all add: jsonRe_def greedyTo_def matchRe_Chr del: matchRe.simps(5))

lemma shift_simps: "shift i None = None" "shift i (Some (j, m)) = Some (i + j, m)"
  "shift (Suc i) r = shift i (shift 1 r)" "shift 0 r = r"
  by (cases r; auto simp: shift_def)+

lemma firstToLast_Nil: "firstToLast opening closing [] = None"
  by (simp add: firstToLast_def)

lemma firstToLast_Cons:
  "firstToLast opening closing (c # t) =
     (if c = opening \<and> closing \<in> set t then Some (0, c # uptoLast closing t)
      else shift 1 (firstToLast opening closing t))"
proof (cases "c = opening")
  case True
  show ?thesis
  proof (cases "closing \<in> set t")
    case in_t: True
    with True show ?thesis
      by (simp add: firstToLast_def uptoLast_Cons)
  next
    case False
    have "closing \<notin> set (tl (dropWhile (\<lambda>x. x \<noteq> opening) t))"
      using False by (metis list.set_sel(2) set_dropWhileD tl_Nil)
    with True False show ?thesis
      by (simp add: firstToLast_def shift_def)
  qed
next
  case False
  then show ?thesis
    by (auto simp: firstToLast_def shift_def Let_def)
qed

lemma bracketSubstring_Nil: "bracketSubstring [] = None"
  by (simp add: bracketSubstring_def firstToLast_Nil)

lemma bracketSubstring_Cons:
  "bracketSubstring (c # t) =
     (if c = CHR ''{'' \<and> CHR ''}'' \<in> set t then Some (0, c # uptoLast CHR ''}'' t)
      else if c = CHR ''['' \<and> CHR '']'' \<in> set t then Some (0, c # uptoLast CHR '']'' t)
      else shift 1 (bracketSubstring t))"
  unfolding bracketSubstring_def firstToLast_Cons
  by (cases "firstToLast CHR ''{'' CHR ''}'' t"; cases "firstToLast CHR ''['' CHR '']'' t")
     (auto simp: shift_def)

lemma take_matched:
  assumes "t = u @ rest"
  shows "take (length (c # t) - length rest) (c # t) = c # u"
proof -
  have "length (c # t) - length rest = Suc (length u)"
    by (subst assms) simp
  then show ?thesis
    by (subst (2) assms) simp
qed

lemma searchFrom_jsonRe: "searchFrom jsonRe i s = shift i (bracketSubstring s)"
proof (induction s arbitrary: i)
  case Nil
  show ?case
    by (subst searchFrom.simps)
       (simp add: matchRe_jsonRe bracketSubstring_Nil shift_simps del: matchRe.simps searchFrom.simps)
next
  case (Cons c t)
  consider (brace) "c = CHR ''{''" "CHR ''}'' \<in> set t"
    | (bracket) "c = CHR ''[''" "CHR '']'' \<in> set t"
    | (neither) "\<not> (c = CHR ''{'' \<and> CHR ''}'' \<in> set t)" "\<not> (c = CHR ''['' \<and> CHR '']'' \<in> set t)"
    by blast
  then show ?case
  proof cases
    case brace
    from matchRe_greedyTo_head [OF brace(2)] obtain rest others where
      m: "matchRe (greedyTo CHR ''}'') t = rest # others" and t: "t = uptoLast CHR ''}'' t @ rest"
      by blast
    have "matchRe jsonRe (c # t) = rest # others"
      using brace m by (simp add: matchRe_jsonRe del: matchRe.simps)
    then have "searchFrom jsonRe i (c # t) = Some (i, take (length (c # t) - length rest) (c # t))"
      by (subst searchFrom.simps) (simp del: matchRe.simps searchFrom.simps)
    also have "\<dots> = Some (i, c # uptoLast CHR ''}'' t)"
      by (simp only: take_matched [OF t])
    finally show ?thesis
      using brace by (simp add: bracketSubstring_Cons shift_simps del: searchFrom.simps)
  next
    case bracket
    from matchRe_greedyTo_head [OF bracket(2)] obtain rest others where
      m: "matchRe (greedyTo CHR '']'') t = rest # others" and t: "t = uptoLast CHR '']'' t @ rest"
      by blast
    have "matchRe jsonRe (c # t) = rest # others"
      using bracket m by (simp add: matchRe_jsonRe del: matchRe.simps)
    then have "searchFrom jsonRe i (c # t) = Some (i, take (length (c # t) - length rest) (c # t))"
      by (subst searchFrom.simps) (simp del: matchRe.simps searchFrom.simps)
    also have "\<dots> = Some (i, c # uptoLast CHR '']'' t)"
      by (simp only: take_matched [OF t])
    finally show ?thesis
      using bracket by (simp add: bracketSubstring_Cons shift_simps del: searchFrom.simps)
  next
    case neither
    then have "matchRe jsonRe (c # t) = []"
      by (auto simp: matchRe_jsonRe matchRe_greedyTo_empty simp del: matchRe.simps)
    then have "searchFrom jsonRe i (c # t) = searchFrom jsonRe (Suc i) t"
      by (subst searchFrom.simps) (simp del: matchRe.simps searchFrom.simps)
    also have "\<dots> = shift i (shift 1 (bracketSubstring t))"
      by (simp only: Cons.IH shift_simps(3))
    finally show ?thesis
      using neither by (auto simp: bracketSubstring_Cons simp del: searchFrom.simps)
  qed
qed

lemma exec_jsonRe: "exec jsonRe s = bracketSubstring s"
  by (simp add: exec_def searchFrom_jsonRe shift_simps del: searchFrom.simps)

section \<open>The Structured-Response Decoder\<close>

lemma extractJSON_part0_total: "\<exists>v. extractJSON_part0 text = Normal v"
  by (simp add: extractJSON_part0_def split: completion.splits option.splits)

lemma extractJSON_part0_absent:
  "JSON_parse text = Threw \<Longrightarrow>
   (\<forall>m. exec jsonRe text = Some m \<longrightarrow> JSON_parse (snd m) = Threw) \<Longrightarrow>
   extractJSON_part0 text = Normal JNull"
  by (simp add: extractJSON_part0_def split: completion.splits option.splits)

lemma extractJSON_variants_agree:
  "extractJSON_index text \<noteq> Threw \<Longrightarrow> extractJSON_part0 text = extractJSON_index text"
  by (auto simp: extractJSON_part0_def extractJSON_index_def split: completion.splits option.splits)

lemma extractJSON_index_throws_iff:
  "extractJSON_index text = Threw \<longleftrightarrow>
     JSON_parse text = Threw \<and> (\<exists>m. exec jsonRe text = Some m \<and> JSON_parse (snd m) = Threw)"
  by (auto simp: extractJSON_index_def split: completion.splits option.splits)

text \<open>
  Claim C1: for every input string \<open>extractJSON\<close> never raises; it returns the parsed
  value when one of the two parse attempts succeeds and \<open>null\<close> when both fail.
  The function of \<open>src/unnamed/part_000\<close> does so (\<open>extractJSON_part0_total\<close>,
  \<open>extractJSON_part0_absent\<close>). The function of \<open>src/index.js\<close> parses the bracket
  substring outside any \<open>try\<close>: on a reply whose bracket substring is not JSON both
  attempts fail and the \<open>SyntaxError\<close> of the second leaves the function.
\<close>

theorem C1_extractJSON_index_raises:
  "JSON_parse ''Sure! {not json}'' = Threw \<and>
   match0 jsonRe ''Sure! {not json}'' = Some ''{not json}'' \<and>
   JSON_parse ''{not json}'' = Threw \<and>
   extractJSON_index ''Sure! {not json}'' = Threw"
  by code_simp

text \<open>
  Claim C9: for every input string the \<open>extractJSON\<close> of \<open>src/index.js\<close> and the
  \<open>extractJSON\<close> of \<open>src/unnamed/part_000\<close> have the same outcome. They agree
  wherever the function of \<open>src/index.js\<close> returns (\<open>extractJSON_variants_agree\<close>);
  where it raises, the other returns \<open>null\<close>, as on the reply below.
\<close>

theorem C9_extractJSON_variants_differ:
  "extractJSON_index ''{score: 7}'' = Threw \<and> extractJSON_part0 ''{score: 7}'' = Normal JNull"
  by code_simp

text \<open>
  Claim C4: the decoder has two stages. It first parses the whole text and returns the
  value on success. On failure it takes the first substring that starts at the first
  \<^verbatim>\<open>{\<close> and ends at the last \<^verbatim>\<open>}\<close>, or starts at the first \<^verbatim>\<open>[\<close> and ends at the last
  \<^verbatim>\<open>]\<close> (the greedy match of the pattern, not a balanced-bracket match), and returns
  the parse of that substring; a JSON object wrapped in prose decodes to the object.
  This holds for the functions of both source files; they differ only in what happens
  when the parse of the substring fails (claim C1).
\<close>

theorem C4_extractJSON_two_stage:
  "(JSON_parse text = Normal v \<longrightarrow>
      extractJSON_index text = Normal v \<and> extractJSON_part0 text = Normal v) \<and>
   exec jsonRe text = bracketSubstring text \<and>
   (JSON_parse text = Threw \<longrightarrow>
      (bracketSubstring text = None \<longrightarrow>
         extractJSON_index text = Normal JNull \<and> extractJSON_part0 text = Normal JNull) \<and>
      (\<forall>i m. bracketSubstring text = Some (i, m) \<longrightarrow>
         extractJSON_index text = JSON_parse m \<and>
         (JSON_parse m = Normal v \<longrightarrow> extractJSON_part0 text = Normal v))) \<and>
   extractJSON_index (''Here you go:'' @ [LF] @ ''{\"score\":7,\"feedback\":\"Good\"}'' @ [LF] @ ''Hope that helps'') = Normal (JObject [(units ''score'', JNumber False 7 0), (units ''feedback'', JStr ''Good'')]) \<and>
   extractJSON_part0 (''Here you go:'' @ [LF] @ ''{\"score\":7,\"feedback\":\"Good\"}'' @ [LF] @ ''Hope that helps'') = Normal (JObject [(units ''score'', JNumber False 7 0), (units ''feedback'', JStr ''Good'')])"
proof -
  have whole: "JSON_parse text = Normal v \<longrightarrow>
      extractJSON_index text = Normal v \<and> extractJSON_part0 text = Normal v"
    by (simp add: extractJSON_index_def extractJSON_part0_def)
  have none: "extractJSON_index text = Normal JNull \<and> extractJSON_part0 text = Normal JNull"
    if "JSON_parse text = Threw" "bracketSubstring text = None"
    using that by (simp add: extractJSON_index_def extractJSON_part0_def exec_jsonRe)
  have some: "extractJSON_index text = JSON_parse m \<and>
      (JSON_parse m = Normal v \<longrightarrow> extractJSON_part0 text = Normal v)"
    if "JSON_parse text = Threw" "bracketSubstring text = Some (i, m)" for i m
    using that by (simp add: extractJSON_index_def extractJSON_part0_def exec_jsonRe)
  have ex1: "extractJSON_index (''Here you go:'' @ [LF] @ ''{\"score\":7,\"feedback\":\"Good\"}'' @ [LF] @ ''Hope that helps'') = Normal (JObject [(units ''score'', JNumber False 7 0), (units ''feedback'', JStr ''Good'')])"
    by code_simp
  have ex2: "extractJSON_part0 (''Here you go:'' @ [LF] @ ''{\"score\":7,\"feedback\":\"Good\"}'' @ [LF] @ ''Hope that helps'') = Normal (JObject [(units ''score'', JNumber False 7 0), (units ''feedback'', JStr ''Good'')])"
    by code_simp
  from whole none some ex1 ex2 show ?thesis
    by (simp only: exec_jsonRe) blast
qed

theorem C4_extractJSON_two_stage_witness:
  "JSON_parse (''Here you go:'' @ [LF] @ ''{\"score\":7,\"feedback\":\"Good\"}'' @ [LF] @ ''Hope that helps'') = Threw \<and>
   exec jsonRe (''Here you go:'' @ [LF] @ ''{\"score\":7,\"feedback\":\"Good\"}'' @ [LF] @ ''Hope that helps'') = Some (13, ''{\"score\":7,\"feedback\":\"Good\"}'') \<and>
   JSON_parse ''{\"score\":7,\"feedback\":\"Good\"}'' = Normal (JObject [(units ''score'', JNumber False 7 0), (units ''feedback'', JStr ''Good'')]) \<and>
   extractJSON_index (''Here you go:'' @ [LF] @ ''{\"score\":7,\"feedback\":\"Good\"}'' @ [LF] @ ''Hope that helps'') = JSON_parse ''{\"score\":7,\"feedback\":\"Good\"}''"
proof -
  have a: "JSON_parse (''Here you go:'' @ [LF] @ ''{\"score\":7,\"feedback\":\"Good\"}'' @ [LF] @ ''Hope that helps'') = Threw"
    by code_simp
  have b: "bracketSubstring (''Here you go:'' @ [LF] @ ''{\"score\":7,\"feedback\":\"Good\"}'' @ [LF] @ ''Hope that helps'') = Some (13, ''{\"score\":7,\"feedback\":\"Good\"}'')"
    by code_simp
  have c: "JSON_parse ''{\"score\":7,\"feedback\":\"Good\"}'' = Normal (JObject [(units ''score'', JNumber False 7 0), (units ''feedback'', JStr ''Good'')])"
    by code_simp
  from a b c C4_extractJSON_two_stage [of "''Here you go:'' @ [LF] @ ''{\"score\":7,\"feedback\":\"Good\"}'' @ [LF] @ ''Hope that helps''" "JObject [(units ''score'', JNumber False 7 0), (units ''feedback'', JStr ''Good'')]"]
  show ?thesis by simp
qed

section \<open>The parse-resume handler\<close>

lemma parseResume_index_keeps_files: "files (parseResume_index e fs file) = fs"
  by (simp add: parseResume_index_def parseFailed_def Let_def
      split: option.splits completion.splits)

lemma parseResume_index_never_unlinks: "UnlinkSync p \<notin> set (calls (parseResume_index e fs file))"
  by (simp add: parseResume_index_def parseFailed_def Let_def
      split: option.splits completion.splits)

lemma parseResume_part0_cleanup:
  assumes "fs (path f) \<noteq> None"
    and "response (parseResume_part0 e fs (Some f)) \<noteq> Response 500 (errorBody ''Failed to parse resume'')"
  shows "files (parseResume_part0 e fs (Some f)) (path f) = None \<and>
         count_list (calls (parseResume_part0 e fs (Some f))) (UnlinkSync (path f)) = 1"
  using assms
  by (auto simp: parseResume_part0_def finish_part0_def parseFailed_def unlinkSync_def
      readFileSync_def Let_def split: option.splits completion.splits if_splits)

text \<open>
  Claim C2: whenever a file was uploaded, the staged temporary file is removed exactly
  once before the handler returns, on every exit path: successful extraction, decoding
  failure and unsupported extension. The handler of \<open>src/unnamed/part_000\<close> removes
  the file after a successful extraction and for an unsupported extension
  (\<open>parseResume_part0_cleanup\<close>), but when the decoder throws, the \<open>catch\<close> block
  answers 500 and the file stays. The handler of \<open>src/index.js\<close> never removes the
  file (\<open>parseResume_index_keeps_files\<close>), not even after a successful extraction.
\<close>

theorem C2_parseResume_leaves_file:
  "response (parseResume_part0 (sampleEnv None []) sampleFiles (Some (sampleUpload ''cv.pdf'')))
     = Response 500 (errorBody ''Failed to parse resume'') \<and>
   calls (parseResume_part0 (sampleEnv None []) sampleFiles (Some (sampleUpload ''cv.pdf'')))
     = [ReadFileSync ''/uploads/f1'', PdfParse ''bytes''] \<and>
   files (parseResume_part0 (sampleEnv None []) sampleFiles (Some (sampleUpload ''cv.pdf'')))
     ''/uploads/f1'' = Some ''bytes'' \<and>
   calls (parseResume_index (sampleEnv (Some ''Jane Doe'') []) sampleFiles (Some (sampleUpload ''cv.pdf'')))
     = [ReadFileSync ''/uploads/f1'', PdfParse ''bytes''] \<and>
   files (parseResume_index (sampleEnv (Some ''Jane Doe'') []) sampleFiles (Some (sampleUpload ''cv.pdf'')))
     ''/uploads/f1'' = Some ''bytes''"
  by code_simp

lemma supported_iff:
  "supported e f \<longleftrightarrow>
     toLowerCase (extname e (originalname f)) = ''.pdf'' \<or>
     toLowerCase (extname e (originalname f)) = ''.docx''"
  by (simp add: supported_def lower_pdf lower_docx)

lemma parseResume_no_file:
  "parseResume_part0 e fs None =
     \<lparr>response = Response 400 (errorBody ''No file uploaded''), files = fs, calls = []\<rparr>"
  "parseResume_index e fs None =
     \<lparr>response = Response 400 (errorBody ''No file uploaded''), files = fs, calls = []\<rparr>"
  by (simp_all add: parseResume_part0_def parseResume_index_def)

lemma parseResume_unsupported:
  assumes "\<not> supported e f"
  shows "parseResume_index e fs (Some f) =
           \<lparr>response = Response 400 (errorBody ''Only PDF or DOCX allowed''), files = fs, calls = []\<rparr>"
    and "fs (path f) \<noteq> None \<Longrightarrow>
         parseResume_part0 e fs (Some f) =
           \<lparr>response = Response 400 (errorBody ''Only PDF or DOCX allowed''),
            files = fs((path f) := None), calls = [UnlinkSync (path f)]\<rparr>"
  using assms
  by (auto simp: supported_iff parseResume_part0_def parseResume_index_def unlinkSync_def Let_def)

lemma parseResume_supported:
  assumes "supported e f"
  shows "response (parseResume_index e fs (Some f)) \<noteq> Response 400 (errorBody ''Only PDF or DOCX allowed'')"
    and "response (parseResume_part0 e fs (Some f)) \<noteq> Response 400 (errorBody ''Only PDF or DOCX allowed'')"
  using assms
  by (auto simp: supported_iff parseResume_part0_def parseResume_index_def finish_part0_def
      parseFailed_def Let_def split: completion.splits)

lemma parseResume_part0_no_decoding:
  "\<not> supported e f \<Longrightarrow> \<not> list_ex isDecoding (calls (parseResume_part0 e fs (Some f)))"
  by (auto simp: supported_iff parseResume_part0_def parseFailed_def unlinkSync_def Let_def
      split: option.splits)

text \<open>
  Claim C8: parse-resume accepts exactly the extensions \<open>.pdf\<close> and \<open>.docx\<close>, compared
  case-insensitively; a request without a file is answered 400 \<open>No file uploaded\<close>,
  and a request whose file has any other extension is answered 400
  \<open>Only PDF or DOCX allowed\<close> before any decoder is invoked. This holds for the
  handlers of both source files. The handler of \<open>src/unnamed/part_000\<close> removes the
  staged file before it answers 400, so for it the file that \<open>multer\<close> staged has to
  be there (\<open>fs (path f) \<noteq> None\<close>).
\<close>

theorem C8_parseResume_extensions:
  "response (parseResume_part0 e fs None) = Response 400 (errorBody ''No file uploaded'') \<and>
   response (parseResume_index e fs None) = Response 400 (errorBody ''No file uploaded'') \<and>
   calls (parseResume_part0 e fs None) = [] \<and> calls (parseResume_index e fs None) = [] \<and>
   (supported e f \<longrightarrow>
      response (parseResume_part0 e fs (Some f)) \<noteq> Response 400 (errorBody ''Only PDF or DOCX allowed'') \<and>
      response (parseResume_index e fs (Some f)) \<noteq> Response 400 (errorBody ''Only PDF or DOCX allowed'')) \<and>
   (\<not> supported e f \<longrightarrow>
      response (parseResume_index e fs (Some f)) = Response 400 (errorBody ''Only PDF or DOCX allowed'') \<and>
      (fs (path f) \<noteq> None \<longrightarrow>
         response (parseResume_part0 e fs (Some f)) = Response 400 (errorBody ''Only PDF or DOCX allowed'')) \<and>
      \<not> list_ex isDecoding (calls (parseResume_part0 e fs (Some f))) \<and>
      \<not> list_ex isDecoding (calls (parseResume_index e fs (Some f))))"
proof -
  have "response (parseResume_part0 e fs (Some f)) \<noteq> Response 400 (errorBody ''Only PDF or DOCX allowed'') \<and>
        response (parseResume_index e fs (Some f)) \<noteq> Response 400 (errorBody ''Only PDF or DOCX allowed'')"
    if "supported e f"
    using parseResume_supported [OF that] by simp
  moreover have "response (parseResume_index e fs (Some f)) = Response 400 (errorBody ''Only PDF or DOCX allowed'') \<and>
        \<not> list_ex isDecoding (calls (parseResume_index e fs (Some f)))"
    if "\<not> supported e f"
    using parseResume_unsupported(1) [OF that] by simp
  moreover have "response (parseResume_part0 e fs (Some f)) = Response 400 (errorBody ''Only PDF or DOCX allowed'')"
    if "\<not> supported e f" "fs (path f) \<noteq> None"
    using parseResume_unsupported(2) [of e f fs] that by simp
  moreover note parseResume_part0_no_decoding [of e f fs]
  ultimately show ?thesis
    by (simp add: parseResume_no_file)
qed

theorem C8_parseResume_extensions_witness:
  "sampleFiles (path (sampleUpload ''notes.txt'')) \<noteq> None \<and>
   \<not> supported (sampleEnv (Some ''Jane Doe'') []) (sampleUpload ''notes.txt'') \<and>
   response (parseResume_part0 (sampleEnv (Some ''Jane Doe'') []) sampleFiles
       (Some (sampleUpload ''notes.txt''))) = Response 400 (errorBody ''Only PDF or DOCX allowed'') \<and>
   response (parseResume_index (sampleEnv (Some ''Jane Doe'') []) sampleFiles
       (Some (sampleUpload ''notes.txt''))) = Response 400 (errorBody ''Only PDF or DOCX allowed'') \<and>
   \<not> list_ex isDecoding (calls (parseResume_part0 (sampleEnv (Some ''Jane Doe'') []) sampleFiles
       (Some (sampleUpload ''notes.txt''))))"
proof -
  have staged: "sampleFiles (path (sampleUpload ''notes.txt'')) \<noteq> None"
    by code_simp
  have other: "\<not> supported (sampleEnv (Some ''Jane Doe'') []) (sampleUpload ''notes.txt'')"
    by code_simp
  from staged other
    C8_parseResume_extensions [of "sampleEnv (Some ''Jane Doe'') []" sampleFiles "sampleUpload ''notes.txt''"]
  show ?thesis by blast
qed

section \<open>The AI endpoints\<close>

lemma generateQuestions_part0_absent:
  assumes "requireObject body = Normal b"
    and "orElse (getProp b ''stack'') defaultStack = JArray xs"
    and "ask e (QuestionsPrompt Part0 (orElse (getProp b ''role'') defaultRole) xs) = (Normal text, ps)"
    and "extractJSON_part0 text = Normal JNull"
  shows "generateQuestions_part0 e body = failWith questionsError ps"
  using assms by (simp add: generateQuestions_part0_def Let_def)

lemma gradeAnswer_part0_absent:
  assumes "requireObject body = Normal b"
    and "getProp b ''question'' = Some q" and "getProp b ''answer'' = Some a"
    and "truthy q" and "truthy a"
    and "ask e (GradePrompt Part0 q a) = (Normal text, ps)"
    and "extractJSON_part0 text = Normal JNull"
  shows "gradeAnswer_part0 e body = failWith gradingError ps"
  using assms by (simp add: gradeAnswer_part0_def)

lemma finalSummary_part0_absent:
  assumes "requireObject body = Normal b"
    and "getProp b ''candidate'' = Some c"
    and "truthy c" and "truthyOpt (getProp c ''answers'')"
    and "ask e (SummaryPrompt Part0 (getProp c ''name'') (getProp c ''answers'')) = (Normal text, ps)"
    and "extractJSON_part0 text = Normal JNull"
  shows "finalSummary_part0 e body = failWith summaryError ps"
  using assms by (simp add: finalSummary_part0_def)

lemma part0_success_is_truthy:
  "answer (generateQuestions_part0 e body) = Response 200 v \<Longrightarrow>
     \<exists>q. v = JObject [(units ''questions'', q)] \<and> truthy q"
  "answer (gradeAnswer_part0 e body) = Response 200 v \<Longrightarrow> truthy v"
  "answer (finalSummary_part0 e body) = Response 200 v \<Longrightarrow> truthy v"
  by (auto simp: generateQuestions_part0_def gradeAnswer_part0_def finalSummary_part0_def
      failWith_def badRequest_def Let_def
      split: completion.splits option.splits json.splits prod.splits if_splits)

text \<open>
  Claim C3: for each of the three AI endpoints, whenever the decoder returns \<open>null\<close> for
  the reply of the model, the endpoint answers 500 with its fixed error message, never
  200. The handlers of \<open>src/unnamed/part_000\<close> do so (\<open>generateQuestions_part0_absent\<close>,
  \<open>gradeAnswer_part0_absent\<close>, \<open>finalSummary_part0_absent\<close>): they throw on a falsy
  decoded value. The handlers of \<open>src/index.js\<close> have no such check and send the
  \<open>null\<close> with status 200.
\<close>

theorem C3_index_answers_200_on_absent:
  "extractJSON_index ''I cannot help with that.'' = Normal JNull \<and>
   generateQuestions_index (sampleEnv None ''I cannot help with that.'') (Some (JObject []))
     = \<lparr>answer = Response 200 (JObject [(units ''questions'', JNull)]), sent = [''prompt'']\<rparr> \<and>
   gradeAnswer_index (sampleEnv None ''I cannot help with that.'')
       (Some (JObject [(units ''question'', JStr ''What is a closure?''), (units ''answer'', JStr ''A function.'')]))
     = \<lparr>answer = Response 200 JNull, sent = [''prompt'']\<rparr> \<and>
   finalSummary_index (sampleEnv None ''I cannot help with that.'')
       (Some (JObject [(units ''candidate'', JObject [(units ''name'', JStr ''Ann''), (units ''answers'', JArray [])])]))
     = \<lparr>answer = Response 200 JNull, sent = [''prompt'']\<rparr>"
  by code_simp

theorem C3_index_answers_200_on_absent_witness:
  "answer (gradeAnswer_index (sampleEnv None ''I cannot help with that.'')
       (Some (JObject [(units ''question'', JStr ''What is a closure?''), (units ''answer'', JStr ''A function.'')])))
     = Response 200 JNull"
  using C3_index_answers_200_on_absent by simp

lemma finalSummary_part0_missing:
  assumes "requireObject body = Normal b"
    and "getProp b ''candidate'' = None \<or>
         (\<exists>c. getProp b ''candidate'' = Some c \<and> getProp c ''answers'' = None)"
  shows "finalSummary_part0 e body = badRequest ''Missing candidate data''"
  using assms by (auto simp: finalSummary_part0_def truthyOpt_def)

text \<open>
  Claim C7: a final-summary request without the candidate object, or whose candidate
  has no \<open>answers\<close>, is answered 400 \<open>Missing candidate data\<close> and no call to the model
  is made. The handler of \<open>src/unnamed/part_000\<close> does so (\<open>finalSummary_part0_missing\<close>).
  The handler of \<open>src/index.js\<close> checks only \<open>!candidate\<close>: for a candidate without
  \<open>answers\<close> it sends the prompt to the model and answers with the decoded reply.
\<close>

theorem C7_index_calls_model_without_answers:
  "getProp (JObject [(units ''name'', JStr ''Ann'')]) ''answers'' = None \<and>
   finalSummary_index (sampleEnv None ''{\"finalScorePercent\": 0, \"summary\": \"No answers\"}'')
       (Some (JObject [(units ''candidate'', JObject [(units ''name'', JStr ''Ann'')])]))
     = \<lparr>answer = Response 200 (JObject [(units ''finalScorePercent'', JNumber False 0 0),
                                         (units ''summary'', JStr ''No answers'')]),
        sent = [''prompt'']\<rparr> \<and>
   finalSummary_part0 (sampleEnv None ''{\"finalScorePercent\": 0, \"summary\": \"No answers\"}'')
       (Some (JObject [(units ''candidate'', JObject [(units ''name'', JStr ''Ann'')])]))
     = \<lparr>answer = Response 400 (errorBody ''Missing candidate data''), sent = []\<rparr>"
  by code_simp

theorem C7_index_calls_model_without_answers_witness:
  "sent (finalSummary_index (sampleEnv None ''{\"finalScorePercent\": 0, \"summary\": \"No answers\"}'')
       (Some (JObject [(units ''candidate'', JObject [(units ''name'', JStr ''Ann'')])])))
     = [''prompt'']"
  using C7_index_calls_model_without_answers by simp

section \<open>Name, email and phone\<close>

text \<open>
  Claim C5, as stated: \<open>extractName\<close> returns the first of the first six non-empty
  trimmed lines that does not contain \<open>resume\<close> in any case, has a letter, and splits
  into four or fewer whitespace-separated tokens. The source counts the pieces of
  \<^verbatim>\<open>s.split(" ")\<close>, which cuts at every single space character and at nothing else:
  a line of five words separated by tabs is returned, and a line of three words
  separated by two spaces each is not.
\<close>

theorem C5_extractName_tokens_counterexample:
  "extractName (''Jane'' @ [CHR 0x09] @ ''Mary'' @ [CHR 0x09] @ ''Ann'' @ [CHR 0x09] @ ''van'' @ [CHR 0x09] @ ''Doe'') = Some (''Jane'' @ [CHR 0x09] @ ''Mary'' @ [CHR 0x09] @ ''Ann'' @ [CHR 0x09] @ ''van'' @ [CHR 0x09] @ ''Doe'') \<and>
   length (wsTokens (''Jane'' @ [CHR 0x09] @ ''Mary'' @ [CHR 0x09] @ ''Ann'' @ [CHR 0x09] @ ''van'' @ [CHR 0x09] @ ''Doe'')) = 5 \<and>
   extractName ''Ann  Lee  Smith'' = None \<and>
   wsTokens ''Ann  Lee  Smith'' = [''Ann'', ''Lee'', ''Smith'']"
  by code_simp

text \<open>
  Claim C5, amended: for every input text \<open>extractName\<close> splits the text into non-empty
  trimmed lines, examines at most the first six in order, and returns the first line
  that does not contain \<open>resume\<close> in any case, has a letter, and has at most three
  space characters (cut at every single space it gives four or fewer pieces); if none
  of the first six lines qualifies it returns \<open>null\<close>. It never raises.
\<close>

theorem C5_extractName_first_qualifying_line:
  "extractName t = find nameLike (take 6 (nameLines t))"
proof -
  have "nameTest = nameLike"
    by (rule ext) (rule nameTest_iff)
  then show ?thesis
    by (simp add: extractName_find)
qed

theorem C5_extractName_first_qualifying_line_witness:
  "extractName (''Jane Doe'' @ [LF] @ ''Resume'' @ [LF] @ ''jane.doe@example.com'') = Some ''Jane Doe'' \<and>
   find nameLike (take 6 (nameLines (''Jane Doe'' @ [LF] @ ''Resume'' @ [LF] @ ''jane.doe@example.com''))) = Some ''Jane Doe''"
proof -
  have "extractName (''Jane Doe'' @ [LF] @ ''Resume'' @ [LF] @ ''jane.doe@example.com'') = Some ''Jane Doe''"
    by code_simp
  with C5_extractName_first_qualifying_line [of "''Jane Doe'' @ [LF] @ ''Resume'' @ [LF] @ ''jane.doe@example.com''"]
  show ?thesis by simp
qed

text \<open>
  Claim C6, as stated: \<open>extractEmail\<close> returns the leftmost substring matching a
  local-part \<open>@\<close> domain-with-dot pattern whose top-level-domain letters are matched
  case-insensitively. The pattern of both source files ends in \<^verbatim>\<open>[a-z]{2,}\<close> and has
  no \<open>i\<close> flag: an address with an upper-case top-level domain is not found, although
  the pattern with \<^verbatim>\<open>[a-zA-Z]{2,}\<close> finds it.
\<close>

theorem C6_extractEmail_upper_case_tld:
  "extractEmail_part0 ''Mail: JANE@EXAMPLE.COM'' = None \<and>
   extractEmail_index ''Mail: JANE@EXAMPLE.COM'' = None \<and>
   match0 emailReAnyCase ''Mail: JANE@EXAMPLE.COM'' = Some ''JANE@EXAMPLE.COM''"
  by code_simp

text \<open>
  Claim C6, amended: for every input text \<open>extractEmail\<close> (of either source file)
  returns the leftmost substring that is email-shaped with a top-level domain of at
  least two lower-case letters \<open>a-z\<close>; if the text has no such substring it returns
  \<open>null\<close>.
\<close>

theorem C6_extractEmail_leftmost_match:
  "extractEmail_index t = extractEmail_part0 t \<and>
   (extractEmail_part0 t = None \<longleftrightarrow> \<not> (\<exists>u. sublist u t \<and> emailShaped u)) \<and>
   (\<forall>m. extractEmail_part0 t = Some m \<longrightarrow> leftmost emailShaped t m)"
proof -
  have shaped: "(\<lambda>u. u \<in> lang emailRe) = emailShaped"
    by (rule ext) (rule lang_emailRe)
  have none: "exec emailRe t = None \<longleftrightarrow> \<not> (\<exists>u. sublist u t \<and> emailShaped u)"
    using test_iff [of emailRe t] by (auto simp: test_def lang_emailRe)
  have some: "leftmost emailShaped t m" if "exec emailRe t = Some (i, m)" for i m
    using exec_leftmost [OF that] by (simp only: shaped)
  have nonempty: "m \<noteq> []" if "exec emailRe t = Some (i, m)" for i m
    using some [OF that] emailShaped_nonempty by (auto simp: leftmost_def)
  have "extractEmail_index t = extractEmail_part0 t"
    using nonempty
    by (auto simp: extractEmail_index_def extractEmail_part0_def firstOrNull_def match0_def
        split: option.splits)
  moreover have "extractEmail_part0 t = None \<longleftrightarrow> \<not> (\<exists>u. sublist u t \<and> emailShaped u)"
    using none by (auto simp: extractEmail_part0_def split: option.splits)
  moreover have "\<forall>m. extractEmail_part0 t = Some m \<longrightarrow> leftmost emailShaped t m"
    using some by (auto simp: extractEmail_part0_def split: option.splits)
  ultimately show ?thesis by blast
qed

theorem C6_extractEmail_leftmost_match_witness:
  "extractEmail_part0 ''Contact: Jane Doe jane.doe@example.com, bob@example.org''
     = Some ''jane.doe@example.com'' \<and>
   leftmost emailShaped ''Contact: Jane Doe jane.doe@example.com, bob@example.org''
     ''jane.doe@example.com''"
proof -
  have "extractEmail_part0 ''Contact: Jane Doe jane.doe@example.com, bob@example.org''
          = Some ''jane.doe@example.com''"
    by code_simp
  with C6_extractEmail_leftmost_match
         [of "''Contact: Jane Doe jane.doe@example.com, bob@example.org''"]
  show ?thesis by blast
qed

text \<open>
  Claim C10: whenever \<open>extractEmail\<close>, \<open>extractPhone\<close> or \<open>extractName\<close> returns a
  result for an input text, the result is a contiguous substring of the text; for
  \<open>extractName\<close> it is a trimmed line of the text. This holds for the functions of
  both source files.
\<close>

theorem C10_results_are_substrings:
  "(extractEmail_index t = Some m \<longrightarrow> sublist m t) \<and>
   (extractEmail_part0 t = Some m \<longrightarrow> sublist m t) \<and>
   (extractPhone_index t = Some m \<longrightarrow> sublist m t) \<and>
   (extractPhone_part0 t = Some m \<longrightarrow> sublist m t) \<and>
   (extractName t = Some m \<longrightarrow> sublist m t \<and> m \<in> set (map trim (splitRe newlineRe t)))"
  using match_sublist [of t m] extractName_line [of t m] by blast

theorem C10_results_are_substrings_witness:
  "extractEmail_part0 ''Contact: Jane Doe jane.doe@example.com, phone 9876543210''
     = Some ''jane.doe@example.com'' \<and>
   sublist ''jane.doe@example.com'' ''Contact: Jane Doe jane.doe@example.com, phone 9876543210''"
proof -
  have "extractEmail_part0 ''Contact: Jane Doe jane.doe@example.com, phone 9876543210''
          = Some ''jane.doe@example.com''"
    by code_simp
  with C10_results_are_substrings
         [of "''Contact: Jane Doe jane.doe@example.com, phone 9876543210''" "''jane.doe@example.com''"]
  show ?thesis by blast
qed

end
